theory Spec2Isabelle
  imports Complex_Main "HOL-Library.Sublist"
begin

section \<open>The Recharge purchase-option observer\<close>

text \<open>
  A shallow embedding of the class \<open>RechargePurchaseOptionObserver\<close> and of the custom
  element \<open>recharge-product\<close> that owns it. The observer locates the shadow root of a
  Recharge subscription widget, watches it with mutation observers, reads the selected
  purchase option and its price out of the widget's markup and dispatches two events:
  \<open>recharge:selection:change\<close> and the theme's variant-update event.

  The DOM is a forest of trees whose nodes carry their identity; the fields of the class
  and the browser's bookkeeping (connected mutation observers, pending timers, dispatched
  events, console warnings) form one record that every method takes and returns.
\<close>

subsection \<open>Strings\<close>

text \<open>
  A string is a list of code units below 256. \<open>String.prototype.includes\<close> is the
  substring test; the empty string is included in every string.
\<close>

fun js_includes :: "string \<Rightarrow> string \<Rightarrow> bool" where
  "js_includes [] sub = (sub = [])"
| "js_includes (c # s) sub = (prefix sub (c # s) \<or> js_includes s sub)"

text \<open>ASCII case folding, for the regular expressions that carry the \<open>i\<close> flag.\<close>

definition lower :: "char \<Rightarrow> char" where
  "lower c =
     (if 65 \<le> (of_char c :: nat) \<and> (of_char c :: nat) \<le> 90
      then char_of ((of_char c :: nat) + 32) else c)"

subsection \<open>Numbers\<close>

text \<open>
  A JavaScript Number read from a decimal numeral is written \<open>Num r\<close>, with \<open>r\<close> the
  decimal that was read: it stands for the double nearest to \<open>r\<close>. The code only compares
  such numbers with zero. A non-negative decimal rounds to the double zero exactly when
  it is at most \<open>2\<^sup>-\<^sup>1\<^sup>0\<^sup>7\<^sup>5\<close>, half of the smallest positive double.
\<close>

datatype number = NaN | Num rat

definition rounds_to_zero :: "rat \<Rightarrow> bool" where
  "rounds_to_zero r = (\<bar>r\<bar> * 2 ^ 1075 \<le> 1)"

fun gt_zero :: "number \<Rightarrow> bool" where
  "gt_zero NaN = False"
| "gt_zero (Num r) = (0 < r \<and> \<not> rounds_to_zero r)"

fun le_zero :: "number \<Rightarrow> bool" where
  "le_zero NaN = False"
| "le_zero (Num r) = (r \<le> 0 \<or> rounds_to_zero r)"

fun falsy_number :: "number \<Rightarrow> bool" where
  "falsy_number NaN = True"
| "falsy_number (Num r) = rounds_to_zero r"

subsection \<open>Regular expressions\<close>

text \<open>
  The five price patterns are sequences of single-character classes, each taken once,
  optionally (\<open>?\<close>), any number of times (\<open>*\<close>) or at least once (\<open>+\<close>), with one capture
  group. A class is the list of the characters it accepts. \<open>rmatch\<close> is the backtracking
  matcher at a fixed start position: greedy quantifiers try the longest repetition first
  and give characters back when the rest of the pattern fails. It returns what each item
  consumed.
\<close>

datatype item = One string | Opt string | Star string | Plus string

fun rmatch :: "item list \<Rightarrow> string \<Rightarrow> string list option" where
  "rmatch [] s = Some []"
| "rmatch (One k # r) [] = None"
| "rmatch (One k # r) (c # s) =
     (if c \<in> set k then map_option ((#) [c]) (rmatch r s) else None)"
| "rmatch (Opt k # r) [] = map_option ((#) []) (rmatch r [])"
| "rmatch (Opt k # r) (c # s) =
     (if c \<in> set k
      then (case rmatch r s of
              Some ms \<Rightarrow> Some ([c] # ms)
            | None \<Rightarrow> map_option ((#) []) (rmatch r (c # s)))
      else map_option ((#) []) (rmatch r (c # s)))"
| "rmatch (Star k # r) [] = map_option ((#) []) (rmatch r [])"
| "rmatch (Star k # r) (c # s) =
     (if c \<in> set k
      then (case rmatch (Star k # r) s of
              Some (m # ms) \<Rightarrow> Some ((c # m) # ms)
            | _ \<Rightarrow> map_option ((#) []) (rmatch r (c # s)))
      else map_option ((#) []) (rmatch r (c # s)))"
| "rmatch (Plus k # r) [] = None"
| "rmatch (Plus k # r) (c # s) =
     (if c \<in> set k
      then (case rmatch (Star k # r) s of
              Some (m # ms) \<Rightarrow> Some ((c # m) # ms)
            | _ \<Rightarrow> None)
      else None)"

text \<open>A pattern without the \<open>g\<close> flag matches at the leftmost start position that succeeds.\<close>

fun rsearch :: "item list \<Rightarrow> string \<Rightarrow> string list option" where
  "rsearch p [] = rmatch p []"
| "rsearch p (c # s) =
     (case rmatch p (c # s) of Some ms \<Rightarrow> Some ms | None \<Rightarrow> rsearch p s)"

record regex =
  pre :: "item list"
  grp :: "item list"
  post :: "item list"

text \<open>\<open>text.match(pattern)\<close>: \<open>None\<close> is \<open>null\<close>, otherwise the pair of \<open>match[0]\<close> and \<open>match[1]\<close>.\<close>

definition js_match :: "regex \<Rightarrow> string \<Rightarrow> (string \<times> string) option" where
  "js_match p s =
     (case rsearch (pre p @ grp p @ post p) s of
        None \<Rightarrow> None
      | Some ms \<Rightarrow> Some (concat ms, concat (take (length (grp p)) (drop (length (pre p)) ms))))"

definition digit :: string where
  "digit = ''0123456789''"

definition digit_or_comma :: string where
  "digit_or_comma = ''0123456789,''"

text \<open>The class \<open>\s\<close> on code units below 256: tab, LF, VT, FF, CR, space and no-break space.\<close>

definition white_space :: string where
  "white_space = [CHR 0x09, CHR 0x0A, CHR 0x0B, CHR 0x0C, CHR 0x0D, CHR 0x20, CHR 0xA0]"

definition patterns :: "regex list" where
  "patterns =
     [\<lparr>pre = [One ''$''],
       grp = [Plus digit_or_comma, Opt ''.'', Star digit],
       post = []\<rparr>,
      \<lparr>pre = [],
       grp = [Plus digit_or_comma, Opt ''.'', Star digit],
       post = [Star white_space, One ''$'']\<rparr>,
      \<lparr>pre = [],
       grp = [Plus digit_or_comma, Opt ''.'', Plus digit],
       post = []\<rparr>,
      \<lparr>pre = [One ''Uu'', One ''Ss'', One ''Dd'', Star white_space],
       grp = [Plus digit_or_comma, Opt ''.'', Star digit],
       post = []\<rparr>,
      \<lparr>pre = [],
       grp = [Plus digit_or_comma, Opt ''.'', Star digit],
       post = [Star white_space, One ''Uu'', One ''Ss'', One ''Dd'']\<rparr>]"

subsection \<open>parseFloat\<close>

text \<open>
  \<open>parseFloat\<close> reads the longest prefix that is a decimal literal. The observer passes it
  a capture group with the commas removed, which holds digits and at most one point, so
  sign, exponent and \<open>Infinity\<close> are left out. No digit at all gives \<open>NaN\<close>.
\<close>

definition is_digit :: "char \<Rightarrow> bool" where
  "is_digit c = (c \<in> set digit)"

definition digit_value :: "char \<Rightarrow> nat" where
  "digit_value c = (of_char c :: nat) - 48"

definition decimal :: "string \<Rightarrow> nat" where
  "decimal s = foldl (\<lambda>n c. 10 * n + digit_value c) 0 s"

definition parseFloat :: "string \<Rightarrow> number" where
  "parseFloat s =
     (let ip = takeWhile is_digit s;
          rest = dropWhile is_digit s;
          fp = (case rest of [] \<Rightarrow> [] | c # r \<Rightarrow> if c = CHR ''.'' then takeWhile is_digit r else [])
      in if ip = [] \<and> fp = [] then NaN
         else Num (of_nat (decimal ip) + of_nat (decimal fp) / 10 ^ length fp))"

text \<open>\<open>match[1].replace(/,/g, '')\<close>\<close>

definition remove_commas :: "string \<Rightarrow> string" where
  "remove_commas s = filter (\<lambda>c. c \<noteq> CHR '','') s"

text \<open>
  The loop of \<open>extractPriceFromElement\<close> over the patterns: a pattern whose match is
  \<open>null\<close>, whose group is empty or whose number is not greater than zero is passed over;
  after the last pattern the result is \<open>0\<close>.
\<close>

fun price_of_text :: "regex list \<Rightarrow> string \<Rightarrow> number" where
  "price_of_text [] text = Num 0"
| "price_of_text (pattern # rest) text =
     (case js_match pattern text of
        None \<Rightarrow> price_of_text rest text
      | Some (m0, m1) \<Rightarrow>
          if m1 \<noteq> []
          then (let price = parseFloat (remove_commas m1)
                in if gt_zero price then price else price_of_text rest text)
          else price_of_text rest text)"

subsection \<open>The DOM\<close>

text \<open>
  A node is an element (local name, attributes, child nodes, open shadow root if any), a
  text node or a shadow root; every node carries its identity, which is what \<open>===\<close>
  compares. The DOM at the time of a callback is a forest: the tree that holds the host
  element and the trees of detached nodes that mutation records still mention. An attribute
  list is read at the first entry of a name. The entry \<open>value\<close> of an input element stands
  for its current \<open>value\<close> property.
\<close>

type_synonym nid = nat

datatype node =
    Element nid string "(string \<times> string) list" "node list" "node option"
  | Text nid string
  | ShadowRoot nid "node list"

type_synonym dom = "node list"

fun node_id :: "node \<Rightarrow> nid" where
  "node_id (Element i t a ks sh) = i"
| "node_id (Text i s) = i"
| "node_id (ShadowRoot i ks) = i"

fun is_element :: "node \<Rightarrow> bool" where
  "is_element (Element i t a ks sh) = True"
| "is_element (Text i s) = False"
| "is_element (ShadowRoot i ks) = False"

fun is_text :: "node \<Rightarrow> bool" where
  "is_text (Element i t a ks sh) = False"
| "is_text (Text i s) = True"
| "is_text (ShadowRoot i ks) = False"

fun tag :: "node \<Rightarrow> string" where
  "tag (Element i t a ks sh) = t"
| "tag (Text i s) = []"
| "tag (ShadowRoot i ks) = []"

fun childNodes :: "node \<Rightarrow> node list" where
  "childNodes (Element i t a ks sh) = ks"
| "childNodes (Text i s) = []"
| "childNodes (ShadowRoot i ks) = ks"

fun shadowRoot :: "node \<Rightarrow> node option" where
  "shadowRoot (Element i t a ks sh) = sh"
| "shadowRoot (Text i s) = None"
| "shadowRoot (ShadowRoot i ks) = None"

fun getAttribute :: "node \<Rightarrow> string \<Rightarrow> string option" where
  "getAttribute (Element i t a ks sh) name = map_of a name"
| "getAttribute (Text i s) name = None"
| "getAttribute (ShadowRoot i ks) name = None"

fun first_some :: "'a option list \<Rightarrow> 'a option" where
  "first_some [] = None"
| "first_some (None # xs) = first_some xs"
| "first_some (Some x # xs) = Some x"

text \<open>All nodes of a tree, shadow trees included, and the node an identity refers to.\<close>

fun subnodes :: "node \<Rightarrow> node list" where
  "subnodes (Element i t a ks sh) =
     Element i t a ks sh # concat (map subnodes ks) @
       (case sh of None \<Rightarrow> [] | Some r \<Rightarrow> subnodes r)"
| "subnodes (Text i s) = [Text i s]"
| "subnodes (ShadowRoot i ks) = ShadowRoot i ks # concat (map subnodes ks)"

definition resolve :: "dom \<Rightarrow> nid \<Rightarrow> node option" where
  "resolve d i = find (\<lambda>n. node_id n = i) (concat (map subnodes d))"

text \<open>
  The inclusive ancestors of a node along \<open>parentNode\<close>, nearest first. The parent of a
  shadow root is \<open>null\<close>, so the chain of a node inside a shadow tree ends at the shadow root.
\<close>

fun chain_in :: "node \<Rightarrow> nid \<Rightarrow> node list option" where
  "chain_in (Element j t a ks sh) i =
     (if i = j then Some [Element j t a ks sh]
      else (case first_some (map (\<lambda>k. chain_in k i) ks) of
              Some c \<Rightarrow> Some (c @ [Element j t a ks sh])
            | None \<Rightarrow> (case sh of None \<Rightarrow> None | Some r \<Rightarrow> chain_in r i)))"
| "chain_in (Text j s) i = (if i = j then Some [Text j s] else None)"
| "chain_in (ShadowRoot j ks) i =
     (if i = j then Some [ShadowRoot j ks]
      else (case first_some (map (\<lambda>k. chain_in k i) ks) of
              Some c \<Rightarrow> Some (c @ [ShadowRoot j ks])
            | None \<Rightarrow> None))"

definition chain :: "dom \<Rightarrow> nid \<Rightarrow> node list" where
  "chain d i = (case first_some (map (\<lambda>t. chain_in t i) d) of None \<Rightarrow> [] | Some c \<Rightarrow> c)"

definition parentNode :: "dom \<Rightarrow> nid \<Rightarrow> nid option" where
  "parentNode d i = (case chain d i of n # p # rest \<Rightarrow> Some (node_id p) | _ \<Rightarrow> None)"

definition parentElement :: "dom \<Rightarrow> nid \<Rightarrow> nid option" where
  "parentElement d i =
     (case chain d i of n # p # rest \<Rightarrow> if is_element p then Some (node_id p) else None
      | _ \<Rightarrow> None)"

text \<open>Descendants in document order; a shadow tree is not among the descendants of its host.\<close>

fun descendants :: "node \<Rightarrow> node list" where
  "descendants (Element i t a ks sh) = concat (map (\<lambda>k. k # descendants k) ks)"
| "descendants (Text i s) = []"
| "descendants (ShadowRoot i ks) = concat (map (\<lambda>k. k # descendants k) ks)"

fun textContent :: "node \<Rightarrow> string" where
  "textContent (Element i t a ks sh) = concat (map textContent ks)"
| "textContent (Text i s) = s"
| "textContent (ShadowRoot i ks) = concat (map textContent ks)"

text \<open>
  \<open>innerText\<close> is the rendered text. The observer reads it only where \<open>textContent\<close> is
  empty, that is where the subtree holds no character data; what is left to render there
  are the line breaks of \<open>br\<close> elements.
\<close>

fun innerText :: "node \<Rightarrow> string" where
  "innerText (Element i t a ks sh) =
     (if t = ''br'' then [CHR 0x0A] else concat (map innerText ks))"
| "innerText (Text i s) = s"
| "innerText (ShadowRoot i ks) = concat (map innerText ks)"

subsection \<open>Selectors\<close>

text \<open>
  The selectors of the observer are lists of compound selectors, each an optional type
  selector with attribute selectors \<open>[a*="v"]\<close> and \<open>[a="v"]\<close>. A type selector is
  compared with the local name, which is in lower case for an HTML element, as are the
  names of its attributes. A substring selector with an empty value matches nothing.

  On HTML elements the values of some attributes, \<open>type\<close> among them, are compared
  without regard to ASCII case; the values of all others, such as \<open>part\<close>, \<open>id\<close> and
  \<open>name\<close>, are compared as they are.
\<close>

datatype attr_sel = Contains string string | Equals string string

datatype compound = Compound "string option" "attr_sel list"

type_synonym selector = "compound list"

definition case_insensitive_attributes :: "string list" where
  "case_insensitive_attributes =
     [''accept'', ''accept-charset'', ''align'', ''alink'', ''axis'', ''bgcolor'', ''charset'',
      ''checked'', ''clear'', ''codetype'', ''color'', ''compact'', ''declare'', ''defer'',
      ''dir'', ''direction'', ''disabled'', ''enctype'', ''face'', ''frame'', ''hreflang'',
      ''http-equiv'', ''lang'', ''language'', ''link'', ''media'', ''method'', ''multiple'',
      ''nohref'', ''noresize'', ''noshade'', ''nowrap'', ''readonly'', ''rel'', ''rev'',
      ''rules'', ''scope'', ''scrolling'', ''selected'', ''shape'', ''target'', ''text'',
      ''type'', ''valign'', ''valuetype'', ''vlink'']"

text \<open>
  A value that matches as it is also matches after case folding, so the folded comparison
  is made only where the plain one fails and the attribute is one of those listed.
\<close>

fun attr_holds :: "(string \<times> string) list \<Rightarrow> attr_sel \<Rightarrow> bool" where
  "attr_holds a (Contains name v) =
     (case map_of a name of
        None \<Rightarrow> False
      | Some x \<Rightarrow>
          if v = [] then False
          else if js_includes x v then True
          else if name \<in> set case_insensitive_attributes
          then js_includes (map lower x) (map lower v)
          else False)"
| "attr_holds a (Equals name v) =
     (case map_of a name of
        None \<Rightarrow> False
      | Some x \<Rightarrow>
          if x = v then True
          else if name \<in> set case_insensitive_attributes
          then map lower x = map lower v
          else False)"

fun matches_compound :: "node \<Rightarrow> compound \<Rightarrow> bool" where
  "matches_compound (Element i t a ks sh) (Compound tg tests) =
     ((case tg of None \<Rightarrow> True | Some x \<Rightarrow> t = x) \<and> list_all (attr_holds a) tests)"
| "matches_compound (Text i s) c = False"
| "matches_compound (ShadowRoot i ks) c = False"

definition matches :: "node \<Rightarrow> selector \<Rightarrow> bool" where
  "matches n sel = list_ex (matches_compound n) sel"

definition querySelectorAll :: "dom \<Rightarrow> nid \<Rightarrow> selector \<Rightarrow> node list" where
  "querySelectorAll d scope sel =
     (case resolve d scope of
        None \<Rightarrow> []
      | Some r \<Rightarrow> filter (\<lambda>n. matches n sel) (descendants r))"

definition querySelector :: "dom \<Rightarrow> nid \<Rightarrow> selector \<Rightarrow> nid option" where
  "querySelector d scope sel =
     (case querySelectorAll d scope sel of [] \<Rightarrow> None | n # ns \<Rightarrow> Some (node_id n))"

text \<open>\<open>closest\<close> tests the element itself and then follows \<open>parentElement\<close>.\<close>

definition closest :: "dom \<Rightarrow> nid \<Rightarrow> selector \<Rightarrow> nid option" where
  "closest d i sel =
     map_option node_id (find (\<lambda>n. matches n sel) (takeWhile is_element (chain d i)))"

definition sel_widget :: selector where
  "sel_widget = [Compound (Some ''recharge-subscription-widget'') []]"

definition rechargeSelectors :: "selector list" where
  "rechargeSelectors =
     [sel_widget,
      [Compound None [Contains ''id'' ''shopify-app-block'', Contains ''id'' ''recharge'']],
      [Compound None [Contains ''id'' ''recharge'']]]"

definition sel_subscription_elements :: selector where
  "sel_subscription_elements =
     [Compound None [Contains ''part'' ''subscription''],
      Compound None [Contains ''part'' ''rc-purchase-option__unit-price''],
      Compound None [Contains ''part'' ''rc-purchase-option__discounted-price'']]"

definition sel_price_elements :: selector where
  "sel_price_elements =
     [Compound None [Equals ''part'' ''rc-purchase-option__price''],
      Compound None [Equals ''part'' ''rc-purchase-option__unit-price''],
      Compound None [Equals ''part'' ''rc-purchase-option__discounted-price'']]"

definition sel_selected :: selector where
  "sel_selected = [Compound None [Contains ''part'' ''rc-purchase-option__selected'']]"

definition sel_any_price :: selector where
  "sel_any_price = [Compound None [Contains ''part'' ''price'']]"

definition sel_purchase_option :: selector where
  "sel_purchase_option = [Compound None [Contains ''part'' ''rc-purchase-option'']]"

definition sel_price :: selector where
  "sel_price = [Compound None [Equals ''part'' ''rc-purchase-option__price'']]"

definition sel_discounted_price :: selector where
  "sel_discounted_price = [Compound None [Equals ''part'' ''rc-purchase-option__discounted-price'']]"

definition sel_unit_price :: selector where
  "sel_unit_price = [Compound None [Equals ''part'' ''rc-purchase-option__unit-price'']]"

definition sel_product_form :: selector where
  "sel_product_form = [Compound (Some ''product-form-component'') []]"

definition sel_input_id :: selector where
  "sel_input_id = [Compound (Some ''input'') [Equals ''name'' ''id'']]"

definition sel_variant_picker :: selector where
  "sel_variant_picker = [Compound (Some ''variant-picker'') []]"

definition sel_json_script :: selector where
  "sel_json_script = [Compound (Some ''script'') [Equals ''type'' ''application/json'']]"

subsection \<open>The state extractor\<close>

text \<open>
  \<open>isOneTimeOption\<close> and \<open>isSubscriptionOption\<close> are the same loop with two tokens: from
  the given element up along \<open>parentNode\<close>, while there is a node and \<open>depth < 10\<close>, the
  \<open>part\<close> attribute is tested for the token. A shadow root has no \<open>getAttribute\<close>.
\<close>

definition part_includes :: "dom \<Rightarrow> nid \<Rightarrow> string \<Rightarrow> bool" where
  "part_includes d i token =
     (case resolve d i of
        None \<Rightarrow> False
      | Some n \<Rightarrow>
          (case getAttribute n ''part'' of
             None \<Rightarrow> False
           | Some partValue \<Rightarrow> partValue \<noteq> [] \<and> js_includes partValue token))"

function part_walk :: "dom \<Rightarrow> string \<Rightarrow> nid option \<Rightarrow> nat \<Rightarrow> bool" where
  "part_walk d token current depth =
     (case current of
        None \<Rightarrow> False
      | Some c \<Rightarrow>
          if depth < 10
          then (if part_includes d c token then True
                else part_walk d token (parentNode d c) (depth + 1))
          else False)"
  by pat_completeness auto
termination
  by (relation "measure (\<lambda>(d, token, current, depth). 10 - depth)") auto

definition isOneTimeOption :: "dom \<Rightarrow> nid \<Rightarrow> bool" where
  "isOneTimeOption d element = part_walk d ''onetime'' (Some element) 0"

definition isSubscriptionOption :: "dom \<Rightarrow> nid \<Rightarrow> bool" where
  "isSubscriptionOption d element = part_walk d ''subscription'' (Some element) 0"

definition element_text :: "node \<Rightarrow> string" where
  "element_text n =
     (if textContent n \<noteq> [] then textContent n
      else if innerText n \<noteq> [] then innerText n else [])"

definition extractPriceFromElement :: "dom \<Rightarrow> nid \<Rightarrow> number" where
  "extractPriceFromElement d element =
     (case resolve d element of
        None \<Rightarrow> Num 0
      | Some n \<Rightarrow> price_of_text patterns (element_text n))"

record priceData =
  price :: number
  planType :: string
  hasDiscount :: bool
  priceElement :: nid

text \<open>
  The first half of \<open>extractPriceData\<close>: the container, the two classifications and the
  lookup of the price element, with the plan type and the discount flag it sets.
\<close>

definition container_of :: "dom \<Rightarrow> nid \<Rightarrow> nid" where
  "container_of d selectedElement =
     (case closest d selectedElement sel_purchase_option of
        Some c \<Rightarrow> c
      | None \<Rightarrow> selectedElement)"

definition price_lookup :: "dom \<Rightarrow> nid \<Rightarrow> nid option \<times> string \<times> bool" where
  "price_lookup d container =
     (let isOneTime = isOneTimeOption d container;
          isSubscription = isSubscriptionOption d container
      in if isOneTime then (querySelector d container sel_price, ''one-time'', False)
         else if isSubscription
         then (case querySelector d container sel_discounted_price of
                 Some e \<Rightarrow> (Some e, ''subscription'', True)
               | None \<Rightarrow> (querySelector d container sel_unit_price, ''subscription'', False))
         else (None, ''unknown'', False))"

definition warn_no_price_element :: string where
  "warn_no_price_element =
     ''[RechargePurchaseOptionObserver] No price element found for selected option''"

definition warn_invalid_price :: string where
  "warn_invalid_price = ''[RechargePurchaseOptionObserver] Invalid price extracted:''"

text \<open>\<open>Inl\<close> is the warning written before \<open>null\<close> is returned.\<close>

definition extractPriceData :: "dom \<Rightarrow> nid \<Rightarrow> string + priceData" where
  "extractPriceData d selectedElement =
     (case price_lookup d (container_of d selectedElement) of
        (None, plan, discount) \<Rightarrow> Inl warn_no_price_element
      | (Some pe, plan, discount) \<Rightarrow>
          (let p = extractPriceFromElement d pe
           in if falsy_number p \<or> le_zero p then Inl warn_invalid_price
              else Inr \<lparr>price = p, planType = plan, hasDiscount = discount,
                        priceElement = pe\<rparr>))"

subsection \<open>Events and the observer's state\<close>

text \<open>
  The value \<open>JSON.parse\<close> returns. An array is an object whose keys are its indices.
\<close>

datatype jv = JNull | JBool bool | JNum rat | JStr string | JObj "(string \<times> jv) list"

fun falsy :: "jv \<Rightarrow> bool" where
  "falsy JNull = True"
| "falsy (JBool b) = (\<not> b)"
| "falsy (JNum r) = rounds_to_zero r"
| "falsy (JStr s) = (s = [])"
| "falsy (JObj kvs) = False"

fun set_property :: "string \<Rightarrow> jv \<Rightarrow> (string \<times> jv) list \<Rightarrow> (string \<times> jv) list" where
  "set_property k v [] = [(k, v)]"
| "set_property k v ((k', v') # kvs) =
     (if k = k' then (k, v) # kvs else (k', v') # set_property k v kvs)"

text \<open>
  \<open>SelectionChange\<close> is the custom event \<open>recharge:selection:change\<close>: the element it is
  dispatched on, then \<open>selectedOption\<close>, the price data and \<open>changeType\<close> of its detail.
  \<open>VariantUpdate\<close> is the theme's \<open>VariantUpdateEvent\<close>: the element it is dispatched on,
  the resource, the source id, the markup handed to the HTML parser and the product id.
\<close>

datatype event =
    SelectionChange nid nid priceData string
  | VariantUpdate nid jv string string string

fun is_SelectionChange :: "event \<Rightarrow> bool" where
  "is_SelectionChange (SelectionChange t sel pd ct) = True"
| "is_SelectionChange (VariantUpdate t r src html pid) = False"

fun is_VariantUpdate :: "event \<Rightarrow> bool" where
  "is_VariantUpdate (SelectionChange t sel pd ct) = False"
| "is_VariantUpdate (VariantUpdate t r src html pid) = True"

text \<open>
  A connected mutation observer is its handle, the callback it runs and the node it
  observes. A pending timer holds the arguments of the retry it will run and its delay in
  milliseconds.
\<close>

datatype callback = WidgetAppeared | SelectionMutated | ContentLoaded

datatype timer = RetryTimer nid nat nat nat

datatype mutation =
    Attributes nid string
  | CharacterData nid
  | ChildList nid "nid list" "nid list"

text \<open>
  The fields of one \<open>RechargePurchaseOptionObserver\<close>, followed by what the instance has
  left in the browser: the mutation observers it has connected, the timers it has set and
  that have not fired, its \<open>DOMContentLoaded\<close> listener, the events it has dispatched and
  the warnings it has written, oldest first.
\<close>

record state =
  element :: nid
  initialized :: bool
  selectionObserver :: "nat option"
  widgetContentObserver :: "nat option"
  widgetObserver :: "nat option"
  rechargeContainer :: "nid option"
  currentSelectedElement :: "nid option"
  observers :: "(nat \<times> callback \<times> nid) list"
  created :: nat
  timers :: "timer list"
  domContentLoaded :: bool
  events :: "event list"
  warnings :: "string list"

text \<open>
  A method returns, or an exception leaves it; the state is the one reached either way.
\<close>

datatype outcome = Returned state | Threw state

fun final :: "outcome \<Rightarrow> state" where
  "final (Returned st) = st"
| "final (Threw st) = st"

fun and_then :: "outcome \<Rightarrow> (state \<Rightarrow> outcome) \<Rightarrow> outcome" where
  "and_then (Returned st) f = f st"
| "and_then (Threw st) f = Threw st"

definition observe :: "callback \<Rightarrow> nid \<Rightarrow> state \<Rightarrow> nat \<times> state" where
  "observe cb target st =
     (created st,
      st\<lparr>observers := observers st @ [(created st, cb, target)], created := created st + 1\<rparr>)"

definition disconnect :: "nat \<Rightarrow> state \<Rightarrow> state" where
  "disconnect h st = st\<lparr>observers := filter (\<lambda>(h', cb, t). h' \<noteq> h) (observers st)\<rparr>"

definition warn :: "string \<Rightarrow> state \<Rightarrow> state" where
  "warn w st = st\<lparr>warnings := warnings st @ [w]\<rparr>"

definition dispatchEvent :: "event \<Rightarrow> state \<Rightarrow> state" where
  "dispatchEvent e st = st\<lparr>events := events st @ [e]\<rparr>"

subsection \<open>The event synthesizer\<close>

text \<open>
  The HTML fragment serialization behind \<open>innerHTML\<close>, for elements and text nodes.
\<close>

definition void_elements :: "string list" where
  "void_elements =
     [''area'', ''base'', ''br'', ''col'', ''embed'', ''hr'', ''img'', ''input'', ''link'',
      ''meta'', ''source'', ''track'', ''wbr'']"

definition raw_text_elements :: "string list" where
  "raw_text_elements =
     [''style'', ''script'', ''xmp'', ''iframe'', ''noembed'', ''noframes'', ''plaintext'',
      ''noscript'']"

definition escape_text :: "string \<Rightarrow> string" where
  "escape_text s =
     concat (map (\<lambda>c. if c = CHR ''&'' then ''&amp;''
                      else if c = CHR 0xA0 then ''&nbsp;''
                      else if c = CHR ''<'' then ''&lt;''
                      else if c = CHR ''>'' then ''&gt;''
                      else [c]) s)"

definition escape_attribute :: "string \<Rightarrow> string" where
  "escape_attribute s =
     concat (map (\<lambda>c. if c = CHR ''&'' then ''&amp;''
                      else if c = CHR 0xA0 then ''&nbsp;''
                      else if c = CHR 0x22 then ''&quot;''
                      else if c = CHR ''<'' then ''&lt;''
                      else if c = CHR ''>'' then ''&gt;''
                      else [c]) s)"

fun serialize :: "bool \<Rightarrow> node \<Rightarrow> string" where
  "serialize raw (Element i t a ks sh) =
     ''<'' @ t @
     concat (map (\<lambda>(k, v). '' '' @ k @ [CHR ''='', CHR 0x22] @ escape_attribute v @ [CHR 0x22]) a) @
     ''>'' @
     (if t \<in> set void_elements then []
      else concat (map (serialize (t \<in> set raw_text_elements)) ks) @ ''</'' @ t @ ''>'')"
| "serialize raw (Text i s) = (if raw then s else escape_text s)"
| "serialize raw (ShadowRoot i ks) = []"

definition innerHTML :: "node \<Rightarrow> string" where
  "innerHTML n = concat (map (serialize (tag n \<in> set raw_text_elements)) (childNodes n))"

text \<open>\<open>priceElement.innerHTML || priceElement.textContent || ''\<close>\<close>

definition priceHTML_of :: "dom \<Rightarrow> nid \<Rightarrow> string" where
  "priceHTML_of d priceEl =
     (case resolve d priceEl of
        None \<Rightarrow> []
      | Some n \<Rightarrow>
          if innerHTML n \<noteq> [] then innerHTML n
          else if textContent n \<noteq> [] then textContent n else [])"

text \<open>The template literal that wraps the price markup, line breaks and indentation included.\<close>

definition htmlString :: "string \<Rightarrow> string" where
  "htmlString priceHTML =
     [CHR 0x0A] @ ''        <product-price>'' @
     [CHR 0x0A] @ ''          <div ref='' @ [CHR 0x22] @ ''priceContainer'' @ [CHR 0x22] @ ''>'' @
     priceHTML @ ''</div>'' @
     [CHR 0x0A] @ ''        </product-price>'' @
     [CHR 0x0A] @ ''      ''"

text \<open>\<open>variantIdInput?.value || null\<close> and \<open>productForm.dataset.productId || ''\<close>\<close>

definition read_variantId :: "dom \<Rightarrow> nid \<Rightarrow> string option" where
  "read_variantId d productForm =
     (case querySelector d productForm sel_input_id of
        None \<Rightarrow> None
      | Some variantIdInput \<Rightarrow>
          (case resolve d variantIdInput of
             None \<Rightarrow> None
           | Some n \<Rightarrow>
               (case getAttribute n ''value'' of
                  None \<Rightarrow> None
                | Some v \<Rightarrow> if v = [] then None else Some v)))"

definition read_productId :: "dom \<Rightarrow> nid \<Rightarrow> string" where
  "read_productId d productForm =
     (case resolve d productForm of
        None \<Rightarrow> []
      | Some n \<Rightarrow> (case getAttribute n ''data-product-id'' of None \<Rightarrow> [] | Some v \<Rightarrow> v))"

text \<open>
  The text of the variant picker's JSON script, when there is a picker with such a script
  and the text is not empty.
\<close>

definition snapshot_text :: "dom \<Rightarrow> nid \<Rightarrow> string option" where
  "snapshot_text d host =
     (case querySelector d host sel_variant_picker of
        None \<Rightarrow> None
      | Some variantPicker \<Rightarrow>
          (case querySelector d variantPicker sel_json_script of
             None \<Rightarrow> None
           | Some variantJsonScript \<Rightarrow>
               (case resolve d variantJsonScript of
                  None \<Rightarrow> None
                | Some n \<Rightarrow> if textContent n = [] then None else Some (textContent n))))"

text \<open>
  The \<open>try\<close> block. \<open>JSON.parse\<close> is the platform's and is a parameter: \<open>None\<close> where it
  throws. The result is \<open>variantResource\<close> after the block (\<open>None\<close> is \<open>null\<close>) and whether
  the \<open>catch\<close> clause ran. It also runs when the form has a variant id and the parsed value
  is \<open>null\<close> (reading \<open>id\<close> throws) or another primitive (the module is strict, so
  assigning \<open>id\<close> throws).
\<close>

definition parse_snapshot ::
  "(string \<Rightarrow> jv option) \<Rightarrow> string option \<Rightarrow> string \<Rightarrow> jv option \<times> bool" where
  "parse_snapshot JSON_parse variantId text =
     (case JSON_parse text of
        None \<Rightarrow> (None, True)
      | Some r \<Rightarrow>
          (case variantId of
             None \<Rightarrow> (Some r, False)
           | Some v \<Rightarrow>
               (case r of
                  JObj kvs \<Rightarrow>
                    if map_of kvs ''id'' \<noteq> Some (JStr v)
                    then (Some (JObj (set_property ''id'' (JStr v) kvs)), False)
                    else (Some r, False)
                | _ \<Rightarrow> (Some r, True))))"

definition fallback :: "string option \<Rightarrow> jv" where
  "fallback variantId =
     JObj [(''id'', JStr (case variantId of None \<Rightarrow> [] | Some v \<Rightarrow> v)),
           (''available'', JBool True),
           (''inventory_management'', JBool False)]"

definition ensure_fields :: "string option \<Rightarrow> (string \<times> jv) list \<Rightarrow> (string \<times> jv) list" where
  "ensure_fields variantId kvs =
     (let kvs1 = (case variantId of
                    None \<Rightarrow> kvs
                  | Some v \<Rightarrow>
                      if (case map_of kvs ''id'' of None \<Rightarrow> True | Some x \<Rightarrow> falsy x)
                      then set_property ''id'' (JStr v) kvs else kvs);
          kvs2 = (if map_of kvs1 ''available'' = None
                  then set_property ''available'' (JBool True) kvs1 else kvs1)
      in if map_of kvs2 ''inventory_management'' = None
         then set_property ''inventory_management'' (JBool False) kvs2 else kvs2)"

text \<open>
  After the \<open>try\<close> block: the fallback for a falsy \<open>variantResource\<close>, the missing fields
  for an object. A truthy primitive has no \<open>available\<close>, the assignment to it throws a
  \<open>TypeError\<close> that nothing catches: \<open>None\<close>.
\<close>

definition complete_resource :: "string option \<Rightarrow> jv option \<Rightarrow> jv option" where
  "complete_resource variantId res =
     (case res of
        None \<Rightarrow> Some (fallback variantId)
      | Some r \<Rightarrow>
          if falsy r then Some (fallback variantId)
          else (case r of
                  JObj kvs \<Rightarrow> Some (JObj (ensure_fields variantId kvs))
                | _ \<Rightarrow> None))"

definition warn_variant_json :: string where
  "warn_variant_json = ''[RechargePurchaseOptionObserver] Failed to parse variant JSON:''"

definition read_snapshot ::
  "(string \<Rightarrow> jv option) \<Rightarrow> dom \<Rightarrow> nid \<Rightarrow> string option \<Rightarrow> jv option \<times> bool" where
  "read_snapshot JSON_parse d host variantId =
     (case snapshot_text d host of
        None \<Rightarrow> (None, False)
      | Some text \<Rightarrow> parse_snapshot JSON_parse variantId text)"

definition dispatchVariantUpdateEvent ::
  "(string \<Rightarrow> jv option) \<Rightarrow> dom \<Rightarrow> nid \<Rightarrow> state \<Rightarrow> outcome" where
  "dispatchVariantUpdateEvent JSON_parse d priceEl st =
     (case querySelector d (element st) sel_product_form of
        None \<Rightarrow> Returned st
      | Some productForm \<Rightarrow>
          (let variantId = read_variantId d productForm;
               productId = read_productId d productForm;
               (res, caught) = read_snapshot JSON_parse d (element st) variantId;
               st1 = (if caught then warn warn_variant_json st else st)
           in case complete_resource variantId res of
                None \<Rightarrow> Threw st1
              | Some variantResource \<Rightarrow>
                  (let priceHTML = priceHTML_of d priceEl
                   in if priceHTML = [] then Returned st1
                      else Returned
                        (dispatchEvent
                           (VariantUpdate productForm variantResource
                              ''recharge-purchase-option'' (htmlString priceHTML) productId)
                           st1))))"

text \<open>
  The event listeners run inside \<open>dispatchEvent\<close>; they are taken not to change what the
  observer reads afterwards. \<open>priceData.priceElement\<close> is an element, hence truthy.
\<close>

definition dispatchPurchaseOptionChangeEvent ::
  "(string \<Rightarrow> jv option) \<Rightarrow> dom \<Rightarrow> nid \<Rightarrow> priceData \<Rightarrow> string \<Rightarrow> state \<Rightarrow> outcome" where
  "dispatchPurchaseOptionChangeEvent JSON_parse d selectedElement pd changeType st =
     dispatchVariantUpdateEvent JSON_parse d (priceElement pd)
       (dispatchEvent (SelectionChange (element st) selectedElement pd changeType) st)"

definition handlePurchaseOptionSelected ::
  "(string \<Rightarrow> jv option) \<Rightarrow> dom \<Rightarrow> nid \<Rightarrow> state \<Rightarrow> outcome" where
  "handlePurchaseOptionSelected JSON_parse d selectedElement st =
     (let st1 = st\<lparr>currentSelectedElement := Some selectedElement\<rparr>
      in case extractPriceData d selectedElement of
           Inl w \<Rightarrow> Returned (warn w st1)
         | Inr pd \<Rightarrow>
             dispatchPurchaseOptionChangeEvent JSON_parse d selectedElement pd ''selection'' st1)"

text \<open>\<open>this.rechargeContainer || this.element.querySelector('recharge-subscription-widget')\<close>\<close>

definition observeTarget :: "dom \<Rightarrow> state \<Rightarrow> nid option" where
  "observeTarget d st =
     (case rechargeContainer st of
        Some c \<Rightarrow> Some c
      | None \<Rightarrow> querySelector d (element st) sel_widget)"

definition checkForPriceUpdate :: "(string \<Rightarrow> jv option) \<Rightarrow> dom \<Rightarrow> state \<Rightarrow> outcome" where
  "checkForPriceUpdate JSON_parse d st =
     (case observeTarget d st of
        None \<Rightarrow> Returned st
      | Some target \<Rightarrow>
          (case querySelector d target sel_selected of
             None \<Rightarrow> Returned st
           | Some selectedElement \<Rightarrow>
               if Some selectedElement = currentSelectedElement st
               then (case extractPriceData d selectedElement of
                       Inl w \<Rightarrow> Returned (warn w st)
                     | Inr pd \<Rightarrow> dispatchVariantUpdateEvent JSON_parse d (priceElement pd) st)
               else handlePurchaseOptionSelected JSON_parse d selectedElement st))"

subsection \<open>The mutation watcher\<close>

definition part_of :: "dom \<Rightarrow> nid \<Rightarrow> string option" where
  "part_of d i = (case resolve d i of None \<Rightarrow> None | Some n \<Rightarrow> getAttribute n ''part'')"

text \<open>
  \<open>el.getAttribute('part')?.includes('price') || el.querySelector('[part*="price"]')\<close>
\<close>

definition price_bearing :: "dom \<Rightarrow> nid \<Rightarrow> bool" where
  "price_bearing d i =
     ((case part_of d i of None \<Rightarrow> False | Some v \<Rightarrow> js_includes v ''price'') \<or>
      querySelector d i sel_any_price \<noteq> None)"

definition is_element_node :: "dom \<Rightarrow> nid \<Rightarrow> bool" where
  "is_element_node d i = (case resolve d i of None \<Rightarrow> False | Some n \<Rightarrow> is_element n)"

definition is_text_node :: "dom \<Rightarrow> nid \<Rightarrow> bool" where
  "is_text_node d i = (case resolve d i of None \<Rightarrow> False | Some n \<Rightarrow> is_text n)"

text \<open>
  The loop over the added and removed nodes of a child-list record: text nodes are
  skipped, the first price-bearing element triggers one price check and ends the loop.
\<close>

fun check_nodes :: "(string \<Rightarrow> jv option) \<Rightarrow> dom \<Rightarrow> nid list \<Rightarrow> state \<Rightarrow> outcome" where
  "check_nodes JSON_parse d [] st = Returned st"
| "check_nodes JSON_parse d (n # ns) st =
     (if \<not> is_element_node d n then check_nodes JSON_parse d ns st
      else if price_bearing d n then checkForPriceUpdate JSON_parse d st
      else check_nodes JSON_parse d ns st)"

text \<open>The body of the loop of \<open>handleSelectionMutations\<close>: one mutation record.\<close>

fun handleSelectionMutation ::
  "(string \<Rightarrow> jv option) \<Rightarrow> dom \<Rightarrow> mutation \<Rightarrow> state \<Rightarrow> outcome" where
  "handleSelectionMutation JSON_parse d (Attributes target attributeName) st =
     (if attributeName = ''part''
      then (case part_of d target of
              None \<Rightarrow> Returned st
            | Some partValue \<Rightarrow>
                if partValue \<noteq> [] \<and> js_includes partValue ''rc-purchase-option__selected''
                then handlePurchaseOptionSelected JSON_parse d target st
                else Returned st)
      else Returned st)"
| "handleSelectionMutation JSON_parse d (CharacterData target) st =
     (if is_text_node d target
      then (case parentElement d target of
              None \<Rightarrow> Returned st
            | Some p \<Rightarrow>
                if price_bearing d p then checkForPriceUpdate JSON_parse d st
                else Returned st)
      else Returned st)"
| "handleSelectionMutation JSON_parse d (ChildList target addedNodes removedNodes) st =
     check_nodes JSON_parse d (addedNodes @ removedNodes) st"

fun handleSelectionMutations ::
  "(string \<Rightarrow> jv option) \<Rightarrow> dom \<Rightarrow> mutation list \<Rightarrow> state \<Rightarrow> outcome" where
  "handleSelectionMutations JSON_parse d [] st = Returned st"
| "handleSelectionMutations JSON_parse d (m # ms) st =
     and_then (handleSelectionMutation JSON_parse d m st)
       (handleSelectionMutations JSON_parse d ms)"

definition isWidgetContentLoaded :: "dom \<Rightarrow> nid \<Rightarrow> bool" where
  "isWidgetContentLoaded d target = (querySelectorAll d target sel_price_elements \<noteq> [])"

text \<open>\<open>/subscription|subscribe|recurring|delivery/i.test(text)\<close>\<close>

definition hasSubscriptionText :: "string \<Rightarrow> bool" where
  "hasSubscriptionText text =
     list_ex (js_includes (map lower text))
       [''subscription'', ''subscribe'', ''recurring'', ''delivery'']"

definition hasSubscriptionOptionsAvailable :: "dom \<Rightarrow> nid \<Rightarrow> bool" where
  "hasSubscriptionOptionsAvailable d target =
     (querySelectorAll d target sel_subscription_elements \<noteq> [] \<or>
      hasSubscriptionText (case resolve d target of None \<Rightarrow> [] | Some n \<Rightarrow> textContent n))"

definition checkForInitialSelection :: "(string \<Rightarrow> jv option) \<Rightarrow> dom \<Rightarrow> state \<Rightarrow> outcome" where
  "checkForInitialSelection JSON_parse d st =
     (case observeTarget d st of
        None \<Rightarrow> Returned st
      | Some target \<Rightarrow>
          if \<not> hasSubscriptionOptionsAvailable d target then Returned st
          else (case querySelector d target sel_selected of
                  None \<Rightarrow> Returned st
                | Some selectedElement \<Rightarrow>
                    (let st1 = st\<lparr>currentSelectedElement := Some selectedElement\<rparr>
                     in case extractPriceData d selectedElement of
                          Inl w \<Rightarrow> Returned (warn w st1)
                        | Inr pd \<Rightarrow>
                            dispatchPurchaseOptionChangeEvent JSON_parse d selectedElement pd
                              ''initial-load'' st1)))"

definition setupWidgetContentObserver ::
  "(string \<Rightarrow> jv option) \<Rightarrow> dom \<Rightarrow> nid \<Rightarrow> state \<Rightarrow> outcome" where
  "setupWidgetContentObserver JSON_parse d target st =
     (if isWidgetContentLoaded d target then checkForInitialSelection JSON_parse d st
      else (let (h, st1) = observe ContentLoaded target st
            in Returned (st1\<lparr>widgetContentObserver := Some h\<rparr>)))"

text \<open>
  The callback of the content observer, which has captured the node it observes. It
  disconnects whatever observer the field \<open>widgetContentObserver\<close> holds at that time.
\<close>

fun widgetContentLoaded ::
  "(string \<Rightarrow> jv option) \<Rightarrow> dom \<Rightarrow> nid \<Rightarrow> mutation list \<Rightarrow> state \<Rightarrow> outcome" where
  "widgetContentLoaded JSON_parse d target [] st = Returned st"
| "widgetContentLoaded JSON_parse d target (ChildList t added removed # ms) st =
     (if isWidgetContentLoaded d target
      then checkForInitialSelection JSON_parse d
             (case widgetContentObserver st of
                None \<Rightarrow> st
              | Some h \<Rightarrow> (disconnect h st)\<lparr>widgetContentObserver := None\<rparr>)
      else widgetContentLoaded JSON_parse d target ms st)"
| "widgetContentLoaded JSON_parse d target (m # ms) st =
     widgetContentLoaded JSON_parse d target ms st"

definition setupSelectionObserver :: "(string \<Rightarrow> jv option) \<Rightarrow> dom \<Rightarrow> state \<Rightarrow> outcome" where
  "setupSelectionObserver JSON_parse d st =
     (case observeTarget d st of
        None \<Rightarrow> Returned st
      | Some target \<Rightarrow>
          (let (h, st1) = observe SelectionMutated target st
           in setupWidgetContentObserver JSON_parse d target
                (st1\<lparr>selectionObserver := Some h\<rparr>)))"

subsection \<open>The discovery engine\<close>

text \<open>\<open>element.shadowRoot\<close> is the open shadow root; \<open>element.children\<close> are the element children.\<close>

fun findShadowRoot :: "node \<Rightarrow> nid option" where
  "findShadowRoot (Element i t a ks sh) =
     (case sh of
        Some r \<Rightarrow> Some (node_id r)
      | None \<Rightarrow>
          first_some
            (map (\<lambda>child. case shadowRoot child of
                             Some r \<Rightarrow> Some (node_id r)
                           | None \<Rightarrow> findShadowRoot child)
               (filter is_element ks)))"
| "findShadowRoot (Text i s) = None"
| "findShadowRoot (ShadowRoot i ks) = None"

definition findShadowRoot_of :: "dom \<Rightarrow> nid \<Rightarrow> nid option" where
  "findShadowRoot_of d i = (case resolve d i of None \<Rightarrow> None | Some n \<Rightarrow> findShadowRoot n)"

definition stopWidgetObserver :: "state \<Rightarrow> state" where
  "stopWidgetObserver st =
     (case widgetObserver st of
        None \<Rightarrow> st
      | Some h \<Rightarrow> (disconnect h st)\<lparr>widgetObserver := None\<rparr>)"

text \<open>
  The retry: when no shadow root is found and \<open>attempt < maxAttempts\<close>, a timer of 300 ms
  is set that runs the retry again with \<open>attempt + 1\<close>.
\<close>

definition retryFindShadowRoot ::
  "(string \<Rightarrow> jv option) \<Rightarrow> dom \<Rightarrow> nid \<Rightarrow> nat \<Rightarrow> nat \<Rightarrow> state \<Rightarrow> outcome" where
  "retryFindShadowRoot JSON_parse d widgetElement attempt maxAttempts st =
     (case findShadowRoot_of d widgetElement of
        Some r \<Rightarrow>
          (let st1 = st\<lparr>rechargeContainer := Some r\<rparr>;
               st2 = (if widgetObserver st1 \<noteq> None then stopWidgetObserver st1 else st1)
           in if selectionObserver st2 = None then setupSelectionObserver JSON_parse d st2
              else Returned st2)
      | None \<Rightarrow>
          if attempt < maxAttempts
          then Returned
                 (st\<lparr>timers := timers st @ [RetryTimer widgetElement (attempt + 1) maxAttempts 300]\<rparr>)
          else Returned st)"

text \<open>
  The two nested loops of \<open>findRechargeContainer\<close> run over the elements each selector
  finds, in the order of the selectors. The flag says whether the selector is the first
  one. \<open>Inl\<close> is the shadow root that ends the loops, \<open>Inr\<close> is \<open>foundWidgetElement\<close>.
  The \<open>tagName\<close> of an HTML element is its local name in upper case, so the test on it
  is a test on the local name.
\<close>

definition candidates :: "dom \<Rightarrow> nid \<Rightarrow> (bool \<times> node) list" where
  "candidates d host =
     concat (map (\<lambda>sel. map (\<lambda>e. (sel = sel_widget, e)) (querySelectorAll d host sel))
               rechargeSelectors)"

fun scan_candidates :: "(bool \<times> node) list \<Rightarrow> nid option \<Rightarrow> nid + nid option" where
  "scan_candidates [] foundWidgetElement = Inr foundWidgetElement"
| "scan_candidates ((first_selector, e) # rest) foundWidgetElement =
     (case findShadowRoot e of
        Some r \<Rightarrow> Inl r
      | None \<Rightarrow>
          scan_candidates rest
            (if foundWidgetElement = None \<and>
                (tag e = ''recharge-subscription-widget'' \<or> first_selector)
             then Some (node_id e) else foundWidgetElement))"

definition findRechargeContainer :: "(string \<Rightarrow> jv option) \<Rightarrow> dom \<Rightarrow> state \<Rightarrow> outcome" where
  "findRechargeContainer JSON_parse d st =
     (case scan_candidates (candidates d (element st)) None of
        Inl r \<Rightarrow> Returned (st\<lparr>rechargeContainer := Some r\<rparr>)
      | Inr foundWidgetElement \<Rightarrow>
          (case foundWidgetElement of
             None \<Rightarrow> Returned st
           | Some w \<Rightarrow>
               if rechargeContainer st = None
               then retryFindShadowRoot JSON_parse d w 0 10 st
               else Returned st))"

definition checkForExistingWidget :: "(string \<Rightarrow> jv option) \<Rightarrow> dom \<Rightarrow> state \<Rightarrow> outcome" where
  "checkForExistingWidget JSON_parse d st =
     and_then (findRechargeContainer JSON_parse d st)
       (\<lambda>st1. if rechargeContainer st1 \<noteq> None
              then setupSelectionObserver JSON_parse d (stopWidgetObserver st1)
              else Returned st1)"

text \<open>
  Whether some child-list record has an added element that is the widget or contains it.
\<close>

definition is_or_has_widget :: "dom \<Rightarrow> nid \<Rightarrow> bool" where
  "is_or_has_widget d i =
     (case resolve d i of
        None \<Rightarrow> False
      | Some n \<Rightarrow>
          is_element n \<and>
          (tag n = ''recharge-subscription-widget'' \<or> querySelector d i sel_widget \<noteq> None))"

fun foundWidget :: "dom \<Rightarrow> mutation list \<Rightarrow> bool" where
  "foundWidget d [] = False"
| "foundWidget d (ChildList t added removed # ms) =
     (list_ex (is_or_has_widget d) added \<or> foundWidget d ms)"
| "foundWidget d (m # ms) = foundWidget d ms"

definition handleWidgetMutations ::
  "(string \<Rightarrow> jv option) \<Rightarrow> dom \<Rightarrow> mutation list \<Rightarrow> state \<Rightarrow> outcome" where
  "handleWidgetMutations JSON_parse d mutations st =
     (if foundWidget d mutations
      then (case querySelector d (element st) sel_widget of
              None \<Rightarrow> Returned st
            | Some widgetElement \<Rightarrow>
                and_then (findRechargeContainer JSON_parse d st)
                  (\<lambda>st1. if rechargeContainer st1 \<noteq> None
                         then setupSelectionObserver JSON_parse d (stopWidgetObserver st1)
                         else Returned st1))
      else Returned st)"

definition observeForRechargeWidget :: "(string \<Rightarrow> jv option) \<Rightarrow> dom \<Rightarrow> state \<Rightarrow> outcome" where
  "observeForRechargeWidget JSON_parse d st =
     (case querySelector d (element st) sel_widget of
        Some rechargeWidget \<Rightarrow> checkForExistingWidget JSON_parse d st
      | None \<Rightarrow>
          (let (h, st1) = observe WidgetAppeared (element st) st
           in checkForExistingWidget JSON_parse d (st1\<lparr>widgetObserver := Some h\<rparr>)))"

definition startObserving :: "(string \<Rightarrow> jv option) \<Rightarrow> dom \<Rightarrow> state \<Rightarrow> outcome" where
  "startObserving JSON_parse d st = observeForRechargeWidget JSON_parse d st"

definition setup_observer :: "(string \<Rightarrow> jv option) \<Rightarrow> dom \<Rightarrow> state \<Rightarrow> outcome" where
  "setup_observer JSON_parse d st =
     and_then (findRechargeContainer JSON_parse d st)
       (\<lambda>st1. and_then (startObserving JSON_parse d st1)
                (\<lambda>st2. Returned (st2\<lparr>initialized := True\<rparr>)))"

text \<open>\<open>loading\<close> says whether \<open>document.readyState\<close> is \<open>'loading'\<close>.\<close>

definition init :: "bool \<Rightarrow> (string \<Rightarrow> jv option) \<Rightarrow> dom \<Rightarrow> state \<Rightarrow> outcome" where
  "init loading JSON_parse d st =
     (if loading then Returned (st\<lparr>domContentLoaded := True\<rparr>) else setup_observer JSON_parse d st)"

definition new_observer :: "nid \<Rightarrow> state" where
  "new_observer host =
     \<lparr>element = host, initialized = False, selectionObserver = None,
      widgetContentObserver = None, widgetObserver = None, rechargeContainer = None,
      currentSelectedElement = None, observers = [], created = 0, timers = [],
      domContentLoaded = False, events = [], warnings = []\<rparr>"

definition constructor :: "bool \<Rightarrow> (string \<Rightarrow> jv option) \<Rightarrow> dom \<Rightarrow> nid \<Rightarrow> outcome" where
  "constructor loading JSON_parse d host = init loading JSON_parse d (new_observer host)"

subsection \<open>Teardown\<close>

definition destroy :: "state \<Rightarrow> state" where
  "destroy st =
     (let st1 = (case selectionObserver st of
                   None \<Rightarrow> st
                 | Some h \<Rightarrow> (disconnect h st)\<lparr>selectionObserver := None\<rparr>);
          st2 = (case widgetContentObserver st1 of
                   None \<Rightarrow> st1
                 | Some h \<Rightarrow> (disconnect h st1)\<lparr>widgetContentObserver := None\<rparr>);
          st3 = stopWidgetObserver st2
      in st3\<lparr>currentSelectedElement := None\<rparr>)"

text \<open>
  The custom element \<open>recharge-product\<close>: its field \<open>observer\<close> is set when the constructor
  returns; the instance lives on while timers and listeners refer to it.
\<close>

record recharge_product =
  observer :: bool
  inst :: state

definition connectedCallback ::
  "bool \<Rightarrow> (string \<Rightarrow> jv option) \<Rightarrow> dom \<Rightarrow> nid \<Rightarrow> recharge_product" where
  "connectedCallback loading JSON_parse d host =
     (case constructor loading JSON_parse d host of
        Returned st \<Rightarrow> \<lparr>observer = True, inst = st\<rparr>
      | Threw st \<Rightarrow> \<lparr>observer = False, inst = st\<rparr>)"

definition disconnectedCallback :: "recharge_product \<Rightarrow> recharge_product" where
  "disconnectedCallback p =
     (if observer p then \<lparr>observer = False, inst = destroy (inst p)\<rparr> else p)"

subsection \<open>The browser's task queue\<close>

text \<open>
  What can run on an instance after its construction: a pending timer fires, the
  \<open>DOMContentLoaded\<close> listener runs, a connected mutation observer delivers records, or
  the host is disconnected. The DOM and the records are whatever they are at that time.
\<close>

definition fire :: "(string \<Rightarrow> jv option) \<Rightarrow> dom \<Rightarrow> timer \<Rightarrow> state \<Rightarrow> state" where
  "fire JSON_parse d t st =
     (case t of
        RetryTimer widgetElement attempt maxAttempts delay \<Rightarrow>
          final (retryFindShadowRoot JSON_parse d widgetElement attempt maxAttempts
                   (st\<lparr>timers := remove1 t (timers st)\<rparr>)))"

definition deliver ::
  "(string \<Rightarrow> jv option) \<Rightarrow> dom \<Rightarrow> callback \<Rightarrow> nid \<Rightarrow> mutation list \<Rightarrow> state \<Rightarrow> state" where
  "deliver JSON_parse d cb target mutations st =
     (case cb of
        WidgetAppeared \<Rightarrow> final (handleWidgetMutations JSON_parse d mutations st)
      | SelectionMutated \<Rightarrow> final (handleSelectionMutations JSON_parse d mutations st)
      | ContentLoaded \<Rightarrow> final (widgetContentLoaded JSON_parse d target mutations st))"

inductive step :: "(string \<Rightarrow> jv option) \<Rightarrow> state \<Rightarrow> state \<Rightarrow> bool"
  for JSON_parse :: "string \<Rightarrow> jv option" where
  timer_fires: "t \<in> set (timers st) \<Longrightarrow> step JSON_parse st (fire JSON_parse d t st)"
| dom_ready: "domContentLoaded st \<Longrightarrow>
     step JSON_parse st (final (setup_observer JSON_parse d (st\<lparr>domContentLoaded := False\<rparr>)))"
| records: "(h, cb, target) \<in> set (observers st) \<Longrightarrow>
     step JSON_parse st (deliver JSON_parse d cb target mutations st)"
| teardown: "step JSON_parse st (destroy st)"

subsection \<open>Notions used in the statements\<close>

text \<open>What a quantified class may consume.\<close>

fun fits :: "item \<Rightarrow> string \<Rightarrow> bool" where
  "fits (One k) m = (\<exists>c \<in> set k. m = [c])"
| "fits (Opt k) m = (m = [] \<or> (\<exists>c \<in> set k. m = [c]))"
| "fits (Star k) m = (set m \<subseteq> set k)"
| "fits (Plus k) m = (m \<noteq> [] \<and> set m \<subseteq> set k)"

text \<open>
  The number one pattern yields on a text, if it matches with a non-empty group, and the
  first number greater than zero that the patterns yield, in their order.
\<close>

definition yields :: "regex \<Rightarrow> string \<Rightarrow> number option" where
  "yields p text =
     (case js_match p text of
        None \<Rightarrow> None
      | Some (m0, m1) \<Rightarrow> if m1 = [] then None else Some (parseFloat (remove_commas m1)))"


text \<open>The first \<open>n\<close> nodes of the \<open>parentNode\<close> chain that starts at \<open>current\<close>.\<close>

primrec path_up :: "dom \<Rightarrow> nat \<Rightarrow> nid option \<Rightarrow> nid list" where
  "path_up d 0 current = []"
| "path_up d (Suc n) current =
     (case current of None \<Rightarrow> [] | Some c \<Rightarrow> c # path_up d n (parentNode d c))"

text \<open>
  The classification as the specification words it: one walk over at most \<open>n\<close> nodes, the
  first node that carries either token decides.
\<close>

primrec first_match :: "dom \<Rightarrow> nat \<Rightarrow> nid option \<Rightarrow> string" where
  "first_match d 0 current = ''unknown''"
| "first_match d (Suc n) current =
     (case current of
        None \<Rightarrow> ''unknown''
      | Some c \<Rightarrow>
          if part_includes d c ''onetime'' then ''one-time''
          else if part_includes d c ''subscription'' then ''subscription''
          else first_match d n (parentNode d c))"

text \<open>The plan type that \<open>extractPriceData\<close> assigns for a container.\<close>

definition plan_of :: "dom \<Rightarrow> nid \<Rightarrow> string" where
  "plan_of d container = fst (snd (price_lookup d container))"

text \<open>
  The resource a variant update would carry: \<open>None\<close> where building it throws. It can be
  built exactly when the snapshot is missing, does not parse, or parses to a falsy value or
  to an object.
\<close>

fun is_object :: "jv \<Rightarrow> bool" where
  "is_object (JObj kvs) = True"
| "is_object v = False"

definition resource_of :: "(string \<Rightarrow> jv option) \<Rightarrow> dom \<Rightarrow> nid \<Rightarrow> nid \<Rightarrow> jv option" where
  "resource_of JSON_parse d host productForm =
     complete_resource (read_variantId d productForm)
       (fst (read_snapshot JSON_parse d host (read_variantId d productForm)))"

definition snapshot_usable :: "(string \<Rightarrow> jv option) \<Rightarrow> dom \<Rightarrow> nid \<Rightarrow> bool" where
  "snapshot_usable JSON_parse d host =
     (case snapshot_text d host of
        None \<Rightarrow> True
      | Some t \<Rightarrow> (case JSON_parse t of None \<Rightarrow> True | Some r \<Rightarrow> falsy r \<or> is_object r))"

text \<open>
  The events of one cycle: nothing, one variant update, or one selection change
  immediately followed by one variant update.
\<close>

fun one_cycle :: "event list \<Rightarrow> bool" where
  "one_cycle [] = True"
| "one_cycle [v] = is_VariantUpdate v"
| "one_cycle [s, v] = (is_SelectionChange s \<and> is_VariantUpdate v)"
| "one_cycle (s # v # e # es) = False"

text \<open>The variant update dispatched from a product form for a resource and a price element.\<close>

definition variant_update_of :: "dom \<Rightarrow> nid \<Rightarrow> jv \<Rightarrow> nid \<Rightarrow> event" where
  "variant_update_of d productForm r priceEl =
     VariantUpdate productForm r ''recharge-purchase-option''
       (htmlString (priceHTML_of d priceEl)) (read_productId d productForm)"

text \<open>The plan type a dispatched selection change may carry.\<close>

fun plan_known :: "event \<Rightarrow> bool" where
  "plan_known (SelectionChange t sel pd ct) =
     (planType pd = ''one-time'' \<or> planType pd = ''subscription'')"
| "plan_known (VariantUpdate t r src html pid) = True"

abbreviation known :: "state \<Rightarrow> bool" where
  "known st \<equiv> list_all plan_known (events st)"

text \<open>
  The widget a timer retries for, the number of retries a timer can still cause (itself
  included), and the firing of the pending timers in the order they were set, one
  document per firing.
\<close>

fun timer_widget :: "timer \<Rightarrow> nid" where
  "timer_widget (RetryTimer w a m dl) = w"

fun remaining :: "timer \<Rightarrow> nat" where
  "remaining (RetryTimer w a m dl) = Suc (m - a)"

fun fire_all :: "(string \<Rightarrow> jv option) \<Rightarrow> dom list \<Rightarrow> state \<Rightarrow> state" where
  "fire_all JSON_parse [] st = st"
| "fire_all JSON_parse (d # ds) st =
     (case timers st of
        [] \<Rightarrow> st
      | t # ts \<Rightarrow> fire_all JSON_parse ds (fire JSON_parse d t st))"

text \<open>
  The records that are not attribute records, and those among them that the watcher takes
  for a price change: a character-data record for a text node whose parent element is
  price-bearing, and a child-list record with a price-bearing element among its added and
  removed nodes.
\<close>

fun is_attributes :: "mutation \<Rightarrow> bool" where
  "is_attributes (Attributes t name) = True"
| "is_attributes (CharacterData t) = False"
| "is_attributes (ChildList t added removed) = False"

fun price_record :: "dom \<Rightarrow> mutation \<Rightarrow> bool" where
  "price_record d (Attributes t name) = False"
| "price_record d (CharacterData t) =
     (is_text_node d t \<and>
      (case parentElement d t of None \<Rightarrow> False | Some p \<Rightarrow> price_bearing d p))"
| "price_record d (ChildList t added removed) =
     list_ex (\<lambda>n. is_element_node d n \<and> price_bearing d n) (added @ removed)"

subsection \<open>Example documents\<close>



definition subscription_option :: dom where
  "subscription_option =
     [ShadowRoot 1
        [Element 2 ''div''
           [(''part'', ''rc-purchase-option rc-purchase-option__subscription rc-purchase-option__selected'')]
           [Element 3 ''span'' [(''part'', ''rc-purchase-option__unit-price'')] [Text 4 ''$10.00''] None,
            Element 5 ''span'' [(''part'', ''rc-purchase-option__discounted-price'')] [Text 6 ''$8.50''] None]
           None]]"

definition nested_option :: dom where
  "nested_option =
     [ShadowRoot 1
        [Element 2 ''div'' [(''part'', ''rc-purchase-options rc-onetime-or-subscription'')]
           [Element 3 ''div''
              [(''part'', ''rc-purchase-option rc-purchase-option__subscription rc-purchase-option__selected'')]
              [Element 4 ''span'' [(''part'', ''rc-purchase-option__discounted-price'')] [Text 5 ''$8.50''] None]
              None]
           None]]"

text \<open>A selected option whose chain carries neither token.\<close>

definition plain_option :: dom where
  "plain_option =
     [ShadowRoot 1
        [Element 2 ''div'' [(''part'', ''rc-purchase-option rc-purchase-option__selected'')]
           [Element 3 ''span'' [(''part'', ''rc-purchase-option__price'')] [Text 4 ''$10.00''] None]
           None]]"

text \<open>
  A product page: the host with a product form, a variant picker whose script does not
  parse, and the widget with a one-time option (node 6) and a subscription option (node 9);
  the same page without the form; a parser that rejects every text; and the state of an
  observer bound to the widget's shadow root.
\<close>

definition widget_shadow :: "nat \<Rightarrow> string \<Rightarrow> node" where
  "widget_shadow selected price_text =
     ShadowRoot 5
       [Element 6 ''div''
          [(''part'', ''rc-purchase-option rc-purchase-option__onetime'' @
                      (if selected = 6 then '' rc-purchase-option__selected'' else []))]
          [Element 7 ''span'' [(''part'', ''rc-purchase-option__price'')] [Text 8 price_text] None]
          None,
        Element 9 ''div''
          [(''part'', ''rc-purchase-option rc-purchase-option__subscription'' @
                      (if selected = 9 then '' rc-purchase-option__selected'' else []))]
          [Element 10 ''span'' [(''part'', ''rc-purchase-option__discounted-price'')]
             [Text 11 ''$8.50''] None]
          None]"

definition product_page :: "nat \<Rightarrow> string \<Rightarrow> dom" where
  "product_page selected price_text =
     [Element 1 ''recharge-product'' []
        [Element 2 ''product-form-component'' [(''data-product-id'', ''77'')]
           [Element 3 ''input'' [(''name'', ''id''), (''value'', ''42'')] [] None] None,
         Element 12 ''variant-picker'' []
           [Element 13 ''script'' [(''type'', ''application/json'')] [Text 14 ''{id:''] None] None,
         Element 4 ''recharge-subscription-widget'' [] [] (Some (widget_shadow selected price_text))]
        None]"

definition page_without_form :: "nat \<Rightarrow> string \<Rightarrow> dom" where
  "page_without_form selected price_text =
     [Element 1 ''recharge-product'' []
        [Element 4 ''recharge-subscription-widget'' [] [] (Some (widget_shadow selected price_text))]
        None]"

definition no_json :: "string \<Rightarrow> jv option" where
  "no_json t = None"

definition bound_state :: "event list \<Rightarrow> nid option \<Rightarrow> string list \<Rightarrow> state" where
  "bound_state es cur ws =
     \<lparr>element = 1, initialized = True, selectionObserver = Some 0,
      widgetContentObserver = None, widgetObserver = None, rechargeContainer = Some 5,
      currentSelectedElement = cur, observers = [(0, SelectionMutated, 5)], created = 1,
      timers = [], domContentLoaded = False, events = es, warnings = ws\<rparr>"

text \<open>
  The host with a widget element that has no shadow root yet, the host before the widget
  element is inserted, and the states of an observer that has found no shadow root: with
  and without the watcher for the widget's appearance.
\<close>

definition page_no_shadow :: dom where
  "page_no_shadow =
     [Element 1 ''recharge-product'' []
        [Element 4 ''recharge-subscription-widget'' [] [] None] None]"

definition page_no_widget :: dom where
  "page_no_widget = [Element 1 ''recharge-product'' [] [] None]"

definition idle_state :: "timer list \<Rightarrow> state" where
  "idle_state ts = (new_observer 1)\<lparr>initialized := True, timers := ts\<rparr>"

definition waiting_state :: "timer list \<Rightarrow> state" where
  "waiting_state ts =
     (new_observer 1)\<lparr>initialized := True, widgetObserver := Some 0,
        observers := [(0, WidgetAppeared, 1)], created := 1, timers := ts\<rparr>"

text \<open>
  The product page with a variant script whose type is written in upper case and whose
  text is a number, a parser that reads that text, and an observer whose container is a
  given node.
\<close>

definition page_upper_type :: dom where
  "page_upper_type =
     [Element 1 ''recharge-product'' []
        [Element 2 ''product-form-component'' [(''data-product-id'', ''77'')]
           [Element 3 ''input'' [(''name'', ''id''), (''value'', ''42'')] [] None] None,
         Element 12 ''variant-picker'' []
           [Element 13 ''script'' [(''type'', ''APPLICATION/JSON'')] [Text 14 ''5''] None] None,
         Element 4 ''recharge-subscription-widget'' [] [] (Some (widget_shadow 6 ''$10.00''))]
        None]"

definition five_json :: "string \<Rightarrow> jv option" where
  "five_json t = (if t = ''5'' then Some (JNum 5) else None)"


section \<open>Properties\<close>

subsection \<open>Lists and strings\<close>

lemma find_append_case:
  "find P (xs @ ys) = (case find P xs of None \<Rightarrow> find P ys | Some x \<Rightarrow> Some x)"
  by (induction xs) auto

lemma first_some_Some:
  "first_some (map f xs) = Some y \<Longrightarrow> \<exists>x \<in> set xs. f x = Some y"
proof (induction xs)
  case Nil
  then show ?case by simp
next
  case (Cons x xs)
  then show ?case by (cases "f x") auto
qed

lemma first_some_map_option:
  "map_option g (first_some (map f xs)) = first_some (map (\<lambda>x. map_option g (f x)) xs)"
proof (induction xs)
  case Nil
  then show ?case by simp
next
  case (Cons x xs)
  then show ?case by (cases "f x") auto
qed

lemma find_concat_map:
  "find P (concat (map g xs)) = first_some (map (\<lambda>x. find P (g x)) xs)"
proof (induction xs)
  case Nil
  then show ?case by simp
next
  case (Cons x xs)
  then show ?case by (cases "find P (g x)") (auto simp: find_append_case)
qed

lemma first_some_cong:
  "(\<And>x. x \<in> set xs \<Longrightarrow> f x = g x) \<Longrightarrow> first_some (map f xs) = first_some (map g xs)"
  by (induction xs) (auto intro: arg_cong [where f = first_some])

lemma js_includes_sublist: "js_includes s sub = sublist sub s"
  by (induction s) (auto simp: sublist_Cons_right)

lemma selected_is_purchase_option:
  assumes "js_includes v ''rc-purchase-option__selected''"
  shows "js_includes v ''rc-purchase-option''"
proof -
  have "prefix ''rc-purchase-option'' ''rc-purchase-option__selected''" by simp
  then have "sublist ''rc-purchase-option'' ''rc-purchase-option__selected''"
    by (rule prefix_imp_sublist)
  with assms show ?thesis
    unfolding js_includes_sublist using sublist_order.order_trans by blast
qed

subsection \<open>The matcher consumes what the classes allow\<close>

lemma rmatch_sound:
  "rmatch p s = Some ms \<Longrightarrow> list_all2 fits p ms \<and> prefix (concat ms) s"
proof (induction p s arbitrary: ms rule: rmatch.induct)
  case (1 s)
  then show ?case by simp
next
  case (2 k r)
  then show ?case by simp
next
  case (3 k r c s)
  then show ?case by (auto split: if_splits)
next
  case (4 k r)
  then show ?case by auto
next
  case (5 k r c s)
  then show ?case by (auto split: if_splits option.splits)
next
  case (6 k r)
  then show ?case by auto
next
  case (7 k r c s)
  then show ?case by (auto split: if_splits option.splits list.splits)
next
  case (8 k r)
  then show ?case by simp
next
  case (9 k r c s)
  then show ?case by (auto split: if_splits option.splits list.splits)
qed

lemma rsearch_sound:
  "rsearch p s = Some ms \<Longrightarrow> list_all2 fits p ms \<and> set (concat ms) \<subseteq> set s"
proof (induction s)
  case Nil
  then have "rmatch p [] = Some ms" by simp
  from rmatch_sound [OF this] show ?case by simp
next
  case (Cons c s)
  show ?case
  proof (cases "rmatch p (c # s)")
    case None
    with Cons have "list_all2 fits p ms \<and> set (concat ms) \<subseteq> set s" by simp
    then show ?thesis by auto
  next
    case (Some a)
    with Cons.prems have "rmatch p (c # s) = Some ms" by simp
    from rmatch_sound [OF this]
    have "list_all2 fits p ms" and "prefix (concat ms) (c # s)" by simp_all
    then show ?thesis using set_mono_prefix by blast
  qed
qed


lemma yields_examples:
  "yields (patterns ! 0) ''$29.99'' = Some (Num (2999 / 100))"
  "yields (patterns ! 1) ''29.99 $'' = Some (Num (2999 / 100))"
  "yields (patterns ! 2) ''29.99'' = Some (Num (2999 / 100))"
  "yields (patterns ! 3) ''usd 1,029.99'' = Some (Num (102999 / 100))"
  "yields (patterns ! 4) ''29.99 USD'' = Some (Num (2999 / 100))"
  by code_simp+

subsection \<open>Ancestor chains\<close>

lemma chain_in_hd:
  "chain_in t i \<noteq> Some [] \<and>
   map_option hd (chain_in t i) = find (\<lambda>n. node_id n = i) (subnodes t)"
proof (induction t)
  case (Element j tg a ks sh)
  let ?self = "Element j tg a ks sh"
  let ?P = "\<lambda>n. node_id n = i"
  show ?case
  proof (cases "i = j")
    case True
    then show ?thesis by simp
  next
    case False
    have kids: "find ?P (concat (map subnodes ks)) =
                first_some (map (\<lambda>k. map_option hd (chain_in k i)) ks)"
      unfolding find_concat_map
      by (rule first_some_cong) (use Element.IH(1) in auto)
    show ?thesis
    proof (cases "first_some (map (\<lambda>k. chain_in k i) ks)")
      case None
      then have n1: "first_some (map (\<lambda>k. map_option hd (chain_in k i)) ks) = None"
        using first_some_map_option [of hd "\<lambda>k. chain_in k i" ks] by simp
      show ?thesis
      proof (cases sh)
        case None
        with False \<open>first_some (map (\<lambda>k. chain_in k i) ks) = None\<close> n1 kids
        show ?thesis by (simp add: find_append_case)
      next
        case (Some r)
        with Element.IH(2) have "chain_in r i \<noteq> Some [] \<and>
          map_option hd (chain_in r i) = find ?P (subnodes r)" by simp
        with False Some \<open>first_some (map (\<lambda>k. chain_in k i) ks) = None\<close> n1 kids
        show ?thesis by (simp add: find_append_case)
      qed
    next
      case (Some c)
      then obtain k where k: "k \<in> set ks" "chain_in k i = Some c"
        using first_some_Some by fastforce
      with Element.IH(1) have ne: "c \<noteq> []" by auto
      have "first_some (map (\<lambda>k. map_option hd (chain_in k i)) ks) = Some (hd c)"
        using first_some_map_option [of hd "\<lambda>k. chain_in k i" ks] Some by simp
      with False Some ne kids show ?thesis by (simp add: find_append_case)
    qed
  qed
next
  case (Text j s)
  then show ?case by simp
next
  case (ShadowRoot j ks)
  let ?P = "\<lambda>n. node_id n = i"
  show ?case
  proof (cases "i = j")
    case True
    then show ?thesis by simp
  next
    case False
    have kids: "find ?P (concat (map subnodes ks)) =
                first_some (map (\<lambda>k. map_option hd (chain_in k i)) ks)"
      unfolding find_concat_map
      by (rule first_some_cong) (use ShadowRoot.IH in auto)
    show ?thesis
    proof (cases "first_some (map (\<lambda>k. chain_in k i) ks)")
      case None
      then have "first_some (map (\<lambda>k. map_option hd (chain_in k i)) ks) = None"
        using first_some_map_option [of hd "\<lambda>k. chain_in k i" ks] by simp
      with False None kids show ?thesis by simp
    next
      case (Some c)
      then obtain k where k: "k \<in> set ks" "chain_in k i = Some c"
        using first_some_Some by fastforce
      with ShadowRoot.IH have ne: "c \<noteq> []" by auto
      have "first_some (map (\<lambda>k. map_option hd (chain_in k i)) ks) = Some (hd c)"
        using first_some_map_option [of hd "\<lambda>k. chain_in k i" ks] Some by simp
      with False Some ne kids show ?thesis by simp
    qed
  qed
qed

lemma chain_resolve:
  "resolve d i = Some n \<Longrightarrow> \<exists>rest. chain d i = n # rest"
proof -
  assume r: "resolve d i = Some n"
  have "map_option hd (first_some (map (\<lambda>t. chain_in t i) d)) = resolve d i"
    unfolding resolve_def find_concat_map first_some_map_option
    by (rule first_some_cong) (simp add: chain_in_hd)
  with r obtain c where c: "first_some (map (\<lambda>t. chain_in t i) d) = Some c" "hd c = n"
    by (cases "first_some (map (\<lambda>t. chain_in t i) d)") auto
  then obtain t where "t \<in> set d" "chain_in t i = Some c"
    using first_some_Some by fastforce
  then have "c \<noteq> []" using chain_in_hd [of t i] by auto
  with c show ?thesis by (cases c) (auto simp: chain_def)
qed

lemma resolve_id: "resolve d i = Some n \<Longrightarrow> node_id n = i"
  unfolding resolve_def by (auto simp: find_Some_iff)

lemma container_of_selected:
  assumes "part_of d sel = Some v" and "js_includes v ''rc-purchase-option__selected''"
  shows "container_of d sel = sel"
proof -
  from assms(1) obtain n where n: "resolve d sel = Some n" "getAttribute n ''part'' = Some v"
    by (auto simp: part_of_def split: option.splits)
  then obtain j t a ks sh where e: "n = Element j t a ks sh"
    by (cases n) auto
  from assms(2) have ne: "v \<noteq> []" by (cases v) auto
  have "matches n sel_purchase_option"
    using n(2) e ne selected_is_purchase_option [OF assms(2)]
    by (simp add: matches_def sel_purchase_option_def)
  moreover obtain rest where "chain d sel = n # rest"
    using chain_resolve [OF n(1)] by blast
  ultimately have "closest d sel sel_purchase_option = Some (node_id n)"
    using e by (simp add: closest_def)
  then show ?thesis using resolve_id [OF n(1)] by (simp add: container_of_def)
qed

lemma part_walk_path:
  "part_walk d token current depth =
     list_ex (\<lambda>a. part_includes d a token) (path_up d (10 - depth) current)"
proof (induction d token current depth rule: part_walk.induct)
  case (1 d token current depth)
  show ?case
  proof (cases current)
    case None
    then show ?thesis by (cases "10 - depth") simp_all
  next
    case (Some c)
    show ?thesis
    proof (cases "depth < 10")
      case True
      then obtain m where m: "10 - depth = Suc m" "10 - (depth + 1) = m"
        by (cases "10 - depth") auto
      show ?thesis
      proof (cases "part_includes d c token")
        case True
        with Some \<open>depth < 10\<close> m show ?thesis by simp
      next
        case False
        with 1 [OF Some \<open>depth < 10\<close> False] Some \<open>depth < 10\<close> m show ?thesis by simp
      qed
    next
      case False
      with Some show ?thesis by simp
    qed
  qed
qed

lemma isOneTimeOption_path:
  "isOneTimeOption d c = list_ex (\<lambda>a. part_includes d a ''onetime'') (path_up d 10 (Some c))"
  unfolding isOneTimeOption_def part_walk_path by simp

lemma isSubscriptionOption_path:
  "isSubscriptionOption d c =
     list_ex (\<lambda>a. part_includes d a ''subscription'') (path_up d 10 (Some c))"
  unfolding isSubscriptionOption_def part_walk_path by simp

lemma plan_of_eq:
  "plan_of d c =
     (if isOneTimeOption d c then ''one-time''
      else if isSubscriptionOption d c then ''subscription'' else ''unknown'')"
  by (simp add: plan_of_def price_lookup_def Let_def split: option.splits)

lemma first_match_cases:
  "first_match d n cur =
     (if list_ex (\<lambda>a. part_includes d a ''onetime'') (path_up d n cur) then
        (if first_match d n cur = ''subscription'' then ''subscription'' else ''one-time'')
      else if list_ex (\<lambda>a. part_includes d a ''subscription'') (path_up d n cur)
      then ''subscription'' else ''unknown'')"
proof (induction n arbitrary: cur)
  case 0
  then show ?case by simp
next
  case (Suc n)
  show ?case
  proof (cases cur)
    case None
    then show ?thesis by simp
  next
    case (Some c)
    show ?thesis
      using Suc [of "parentNode d c"] Some by (simp split: if_splits)
  qed
qed

subsection \<open>Price extraction\<close>

lemma plus_consumes:
  "list_all2 fits p ms \<Longrightarrow> Plus k \<in> set p \<Longrightarrow> \<exists>m \<in> set ms. m \<noteq> [] \<and> set m \<subseteq> set k"
  by (induction rule: list_all2_induct) auto

lemma patterns_have_plus:
  "p \<in> set patterns \<Longrightarrow> Plus digit_or_comma \<in> set (pre p @ grp p @ post p)"
  by (auto simp: patterns_def)

lemma match_needs_digit_or_comma:
  assumes "p \<in> set patterns" and "js_match p text = Some mm"
  shows "\<exists>c \<in> set text. c \<in> set digit_or_comma"
proof -
  from assms(2) obtain ms where ms: "rsearch (pre p @ grp p @ post p) text = Some ms"
    by (auto simp: js_match_def split: option.splits)
  from rsearch_sound [OF ms]
  have f: "list_all2 fits (pre p @ grp p @ post p) ms" and s: "set (concat ms) \<subseteq> set text"
    by simp_all
  from plus_consumes [OF f patterns_have_plus [OF assms(1)]]
  obtain m where m: "m \<in> set ms" "m \<noteq> []" "set m \<subseteq> set digit_or_comma" by blast
  from m(2) obtain c where "c \<in> set m" by (cases m) auto
  with m s have "c \<in> set text" "c \<in> set digit_or_comma" by auto
  then show ?thesis by blast
qed

lemma price_of_text_no_match:
  "(\<And>p. p \<in> set ps \<Longrightarrow> js_match p text = None) \<Longrightarrow> price_of_text ps text = Num 0"
  by (induction ps) auto

lemma price_needs_digit_or_comma:
  assumes "gt_zero (price_of_text patterns text)"
  shows "\<exists>c \<in> set text. c \<in> set digit_or_comma"
proof (rule ccontr)
  assume n: "\<not> (\<exists>c \<in> set text. c \<in> set digit_or_comma)"
  have "price_of_text patterns text = Num 0"
  proof (rule price_of_text_no_match)
    fix p assume p: "p \<in> set patterns"
    show "js_match p text = None"
      using n match_needs_digit_or_comma [OF p] by (cases "js_match p text") auto
  qed
  with assms show False by simp
qed

lemma innerText_without_text:
  "textContent n = [] \<Longrightarrow> set (innerText n) \<subseteq> {CHR 0x0A}"
  by (induction n) auto

lemma priced_text_has_content:
  assumes "gt_zero (price_of_text patterns (element_text n))"
  shows "textContent n \<noteq> []"
proof
  assume e: "textContent n = []"
  from price_needs_digit_or_comma [OF assms]
  obtain c where c: "c \<in> set (element_text n)" "c \<in> set digit_or_comma" by blast
  from c(1) e have "c \<in> set (innerText n)" by (simp add: element_text_def split: if_splits)
  with innerText_without_text [OF e] have "c = CHR 0x0A" by auto
  with c(2) show False by (simp add: digit_or_comma_def)
qed

lemma gt_zero_truthy: "gt_zero p \<longleftrightarrow> \<not> (falsy_number p \<or> le_zero p)"
  by (cases p) auto

lemma extractPriceData_Inr:
  assumes "extractPriceData d sel = Inr pd"
  shows "price_lookup d (container_of d sel) = (Some (priceElement pd), planType pd, hasDiscount pd)"
    and "price pd = extractPriceFromElement d (priceElement pd)"
    and "gt_zero (price pd)"
  using assms
  by (auto simp: extractPriceData_def Let_def gt_zero_truthy split: prod.splits option.splits if_splits)

lemma extractPriceData_resolves:
  assumes "extractPriceData d sel = Inr pd"
  shows "\<exists>n. resolve d (priceElement pd) = Some n \<and> textContent n \<noteq> [] \<and>
             price pd = price_of_text patterns (element_text n)"
proof -
  from extractPriceData_Inr [OF assms]
  have p: "price pd = extractPriceFromElement d (priceElement pd)" and g: "gt_zero (price pd)"
    by simp_all
  show ?thesis
  proof (cases "resolve d (priceElement pd)")
    case None
    with p g show ?thesis by (simp add: extractPriceFromElement_def)
  next
    case (Some n)
    with p have "price pd = price_of_text patterns (element_text n)"
      by (simp add: extractPriceFromElement_def)
    with g priced_text_has_content [of n] Some show ?thesis by simp
  qed
qed

lemma priceHTML_nonempty:
  assumes "extractPriceData d sel = Inr pd"
  shows "priceHTML_of d (priceElement pd) \<noteq> []"
  using extractPriceData_resolves [OF assms] by (auto simp: priceHTML_of_def split: if_splits)


subsection \<open>Classification, lookup and parsing\<close>









text \<open>
  Claim C4, amended. For a node that carries the selected marker the container is the
  node itself, and the plan type comes from two walks over the first ten nodes of its
  parent chain: one-time when any of them carries the one-time token, else subscription
  when any of them carries the subscription token, else unknown. This agrees with the
  single first-match walk except where that walk says subscription and a node in range
  carries the one-time token, where the code says one-time.
\<close>

theorem plan_kind_two_walks:
  assumes "part_of d sel = Some v" and "js_includes v ''rc-purchase-option__selected''"
  shows "plan_of d (container_of d sel) =
           (if list_ex (\<lambda>a. part_includes d a ''onetime'') (path_up d 10 (Some sel))
            then ''one-time''
            else if list_ex (\<lambda>a. part_includes d a ''subscription'') (path_up d 10 (Some sel))
            then ''subscription'' else ''unknown'') \<and>
         (plan_of d (container_of d sel) = first_match d 10 (Some sel) \<or>
          plan_of d (container_of d sel) = ''one-time'' \<and>
          first_match d 10 (Some sel) = ''subscription'') \<and>
         (case extractPriceData d sel of
            Inr pd \<Rightarrow> planType pd = plan_of d (container_of d sel)
          | Inl w \<Rightarrow> True)"
proof -
  have c: "container_of d sel = sel" using assms by (rule container_of_selected)
  have 1: "plan_of d sel =
           (if list_ex (\<lambda>a. part_includes d a ''onetime'') (path_up d 10 (Some sel))
            then ''one-time''
            else if list_ex (\<lambda>a. part_includes d a ''subscription'') (path_up d 10 (Some sel))
            then ''subscription'' else ''unknown'')"
    by (simp add: plan_of_eq isOneTimeOption_path isSubscriptionOption_path)
  have 2: "plan_of d sel = first_match d 10 (Some sel) \<or>
           plan_of d sel = ''one-time'' \<and> first_match d 10 (Some sel) = ''subscription''"
    unfolding 1 using first_match_cases [of d 10 "Some sel"] by (auto split: if_splits)
  have 3: "case extractPriceData d sel of
             Inr pd \<Rightarrow> planType pd = plan_of d (container_of d sel) | Inl w \<Rightarrow> True"
  proof (cases "extractPriceData d sel")
    case (Inl w)
    then show ?thesis by simp
  next
    case (Inr pd)
    from extractPriceData_Inr(1) [OF Inr] Inr show ?thesis by (simp add: plan_of_def)
  qed
  from 1 2 3 c show ?thesis by simp
qed

theorem plan_kind_two_walks_witness:
  "plan_of subscription_option (container_of subscription_option 2) = ''subscription'' \<and>
   first_match subscription_option 10 (Some 2) = ''subscription''"
proof -
  have h1: "part_of subscription_option 2 =
    Some ''rc-purchase-option rc-purchase-option__subscription rc-purchase-option__selected''"
    by code_simp
  have h2: "js_includes ''rc-purchase-option rc-purchase-option__subscription rc-purchase-option__selected''
              ''rc-purchase-option__selected''"
    by code_simp
  have p: "path_up subscription_option 10 (Some 2) = [2, 1]" by code_simp
  have a: "\<not> part_includes subscription_option 2 ''onetime''"
          "\<not> part_includes subscription_option 1 ''onetime''"
          "part_includes subscription_option 2 ''subscription''"
    by code_simp+
  have f: "first_match subscription_option 10 (Some 2) = ''subscription''" by code_simp
  from plan_kind_two_walks [OF h1 h2] p a f show ?thesis by simp
qed

theorem plan_kind_nearest_counterexample:
  "first_match nested_option 10 (Some 3) = ''subscription'' \<and>
   plan_of nested_option (container_of nested_option 3) = ''one-time'' \<and>
   extractPriceData nested_option 3 = Inl warn_no_price_element"
  by code_simp

subsection \<open>Dispatch\<close>

lemma complete_resource_usable:
  "complete_resource vid (fst (parse_snapshot jp vid t)) \<noteq> None \<longleftrightarrow>
     (case jp t of None \<Rightarrow> True | Some r \<Rightarrow> falsy r \<or> is_object r)"
  by (cases "jp t"; cases vid)
     (auto simp: complete_resource_def parse_snapshot_def split: jv.splits if_splits)

lemma snapshot_usable_resource:
  "snapshot_usable jp d host \<longleftrightarrow> resource_of jp d host pf \<noteq> None"
proof (cases "snapshot_text d host")
  case None
  then show ?thesis
    by (simp add: snapshot_usable_def resource_of_def read_snapshot_def complete_resource_def)
next
  case (Some t)
  with complete_resource_usable [of "read_variantId d pf" jp t] show ?thesis
    by (auto simp: snapshot_usable_def resource_of_def read_snapshot_def)
qed

lemma dispatchVariantUpdateEvent_no_form:
  "querySelector d (element st) sel_product_form = None \<Longrightarrow>
   dispatchVariantUpdateEvent jp d pe st = Returned st"
  by (simp add: dispatchVariantUpdateEvent_def)

lemma dispatchVariantUpdateEvent_dispatches:
  assumes "querySelector d (element st) sel_product_form = Some pf"
    and "resource_of jp d (element st) pf = Some r"
    and "priceHTML_of d pe \<noteq> []"
  shows "\<exists>st'. dispatchVariantUpdateEvent jp d pe st = Returned st' \<and>
           events st' = events st @ [variant_update_of d pf r pe] \<and>
           element st' = element st"
  using assms
  by (auto simp: dispatchVariantUpdateEvent_def resource_of_def variant_update_of_def Let_def
        warn_def dispatchEvent_def split: prod.splits)

lemma dispatchVariantUpdateEvent_events:
  "\<exists>new. events (final (dispatchVariantUpdateEvent jp d pe st)) = events st @ new \<and>
          (new = [] \<or> (\<exists>v. new = [v] \<and> is_VariantUpdate v))"
  by (auto simp: dispatchVariantUpdateEvent_def Let_def warn_def dispatchEvent_def
        split: prod.splits option.splits)

lemma handlePurchaseOptionSelected_ok:
  assumes "extractPriceData d sel = Inr pd"
    and "querySelector d (element st) sel_product_form = Some pf"
    and "resource_of jp d (element st) pf = Some r"
  shows "\<exists>st'. handlePurchaseOptionSelected jp d sel st = Returned st' \<and>
           events st' = events st @
             [SelectionChange (element st) sel pd ''selection'',
              variant_update_of d pf r (priceElement pd)]"
proof -
  let ?st1 = "dispatchEvent (SelectionChange (element st) sel pd ''selection'')
                (st\<lparr>currentSelectedElement := Some sel\<rparr>)"
  have e: "element ?st1 = element st" by (simp add: dispatchEvent_def)
  from dispatchVariantUpdateEvent_dispatches [of d ?st1 pf jp r "priceElement pd"]
       assms(2,3) priceHTML_nonempty [OF assms(1)] e
  obtain st' where "dispatchVariantUpdateEvent jp d (priceElement pd) ?st1 = Returned st'"
    "events st' = events ?st1 @ [variant_update_of d pf r (priceElement pd)]"
    by auto
  then show ?thesis using assms(1)
    by (simp add: handlePurchaseOptionSelected_def dispatchPurchaseOptionChangeEvent_def
          dispatchEvent_def)
qed

lemma handlePurchaseOptionSelected_cycle:
  assumes "querySelector d (element st) sel_product_form = Some pf"
    and "resource_of jp d (element st) pf = Some r"
  shows "\<exists>st' new. handlePurchaseOptionSelected jp d sel st = Returned st' \<and>
           events st' = events st @ new \<and> one_cycle new"
proof (cases "extractPriceData d sel")
  case (Inl w)
  then show ?thesis by (simp add: handlePurchaseOptionSelected_def warn_def)
next
  case (Inr pd)
  from handlePurchaseOptionSelected_ok [OF Inr assms] show ?thesis
    by (auto simp: variant_update_of_def)
qed

lemma checkForPriceUpdate_cycle:
  assumes "querySelector d (element st) sel_product_form = Some pf"
    and "resource_of jp d (element st) pf = Some r"
  shows "\<exists>st' new. checkForPriceUpdate jp d st = Returned st' \<and>
           events st' = events st @ new \<and> one_cycle new"
proof (cases "observeTarget d st")
  case None
  then show ?thesis by (simp add: checkForPriceUpdate_def)
next
  case (Some t)
  show ?thesis
  proof (cases "querySelector d t sel_selected")
    case None
    with Some show ?thesis by (simp add: checkForPriceUpdate_def)
  next
    case sel: (Some s)
    show ?thesis
    proof (cases "Some s = currentSelectedElement st")
      case False
      with Some sel handlePurchaseOptionSelected_cycle [OF assms, of s] show ?thesis
        by (simp add: checkForPriceUpdate_def)
    next
      case True
      then have cur: "currentSelectedElement st = Some s" by simp
      show ?thesis
      proof (cases "extractPriceData d s")
        case (Inl w)
        with Some sel cur show ?thesis by (simp add: checkForPriceUpdate_def warn_def)
      next
        case (Inr pd)
        from dispatchVariantUpdateEvent_dispatches [OF assms priceHTML_nonempty [OF Inr]]
        show ?thesis using Some sel cur Inr
          by (auto simp: checkForPriceUpdate_def variant_update_of_def)
      qed
    qed
  qed
qed

lemma check_nodes_cycle:
  assumes "querySelector d (element st) sel_product_form = Some pf"
    and "resource_of jp d (element st) pf = Some r"
  shows "\<exists>st' new. check_nodes jp d ns st = Returned st' \<and>
           events st' = events st @ new \<and> one_cycle new"
proof (induction ns)
  case Nil
  then show ?case by simp
next
  case (Cons n ns)
  with checkForPriceUpdate_cycle [OF assms] show ?case by simp
qed

lemma handleSelectionMutation_cycle:
  assumes "querySelector d (element st) sel_product_form = Some pf"
    and "resource_of jp d (element st) pf = Some r"
  shows "\<exists>st' new. handleSelectionMutation jp d m st = Returned st' \<and>
           events st' = events st @ new \<and> one_cycle new"
proof (cases m)
  case (Attributes t name)
  with handlePurchaseOptionSelected_cycle [OF assms, of t] show ?thesis
    by (auto split: option.splits)
next
  case (CharacterData t)
  with checkForPriceUpdate_cycle [OF assms] show ?thesis
    by (auto split: option.splits)
next
  case (ChildList t added removed)
  with check_nodes_cycle [OF assms] show ?thesis by simp
qed

lemma checkForInitialSelection_cycle:
  assumes "querySelector d (element st) sel_product_form = Some pf"
    and "resource_of jp d (element st) pf = Some r"
  shows "\<exists>st' new. checkForInitialSelection jp d st = Returned st' \<and>
           events st' = events st @ new \<and> one_cycle new"
proof (cases "observeTarget d st")
  case None
  then show ?thesis by (simp add: checkForInitialSelection_def)
next
  case (Some t)
  show ?thesis
  proof (cases "hasSubscriptionOptionsAvailable d t")
    case False
    with Some show ?thesis by (simp add: checkForInitialSelection_def)
  next
    case True
    show ?thesis
    proof (cases "querySelector d t sel_selected")
      case None
      with Some True show ?thesis by (simp add: checkForInitialSelection_def)
    next
      case sel: (Some s)
      show ?thesis
      proof (cases "extractPriceData d s")
        case (Inl w)
        with Some True sel show ?thesis
          by (simp add: checkForInitialSelection_def warn_def)
      next
        case (Inr pd)
        let ?st1 = "dispatchEvent (SelectionChange (element st) s pd ''initial-load'')
                      (st\<lparr>currentSelectedElement := Some s\<rparr>)"
        have e: "element ?st1 = element st" by (simp add: dispatchEvent_def)
        from dispatchVariantUpdateEvent_dispatches [of d ?st1 pf jp r "priceElement pd"]
             assms priceHTML_nonempty [OF Inr] e
        obtain st' where "dispatchVariantUpdateEvent jp d (priceElement pd) ?st1 = Returned st'"
          "events st' = events ?st1 @ [variant_update_of d pf r (priceElement pd)]"
          by auto
        then show ?thesis using Some True sel Inr
          by (simp add: checkForInitialSelection_def dispatchPurchaseOptionChangeEvent_def
                dispatchEvent_def variant_update_of_def)
      qed
    qed
  qed
qed


lemma constructor_product_page:
  "constructor False no_json (product_page 0 ''$10.00'') 1 = Returned (bound_state [] None [])"
  by code_simp

lemma constructor_page_without_form:
  "constructor False no_json (page_without_form 0 ''$10.00'') 1 = Returned (bound_state [] None [])"
  by code_simp

text \<open>
  The variant script is found whatever the case of its type, and a snapshot that parses to
  a number makes the dispatch of the variant update throw after the selection change.
\<close>

lemma upper_case_type_is_read:
  "snapshot_text page_upper_type 1 = Some ''5''"
  by code_simp

lemma truthy_primitive_throws:
  "handleSelectionMutation five_json page_upper_type (Attributes 6 ''part'')
     (bound_state [] None []) =
   Threw (bound_state
     [SelectionChange 1 6
        \<lparr>price = Num 10, planType = ''one-time'', hasDiscount = False, priceElement = 7\<rparr>
        ''selection'']
     (Some 6) [warn_variant_json])"
  by code_simp

text \<open>
  Claim C8, amended. When the host contains a product form and a price was extracted, a
  missing snapshot or one that fails to parse leads to exactly one variant update,
  dispatched from the form, whose resource is the fallback: the form's variant id (or the
  empty string), available, no inventory management.
\<close>

theorem fallback_snapshot_still_dispatches:
  assumes "querySelector d (element st) sel_product_form = Some pf"
    and "extractPriceData d sel = Inr pd"
    and "snapshot_text d (element st) = None \<or>
         (\<exists>t. snapshot_text d (element st) = Some t \<and> JSON_parse t = None)"
  shows "\<exists>st'. dispatchVariantUpdateEvent JSON_parse d (priceElement pd) st = Returned st' \<and>
           events st' = events st @
             [VariantUpdate pf
                (JObj [(''id'', JStr (case read_variantId d pf of None \<Rightarrow> [] | Some v \<Rightarrow> v)),
                       (''available'', JBool True),
                       (''inventory_management'', JBool False)])
                ''recharge-purchase-option''
                (htmlString (priceHTML_of d (priceElement pd)))
                (read_productId d pf)]"
proof -
  from assms(3)
  have "fst (read_snapshot JSON_parse d (element st) (read_variantId d pf)) = None"
    by (auto simp: read_snapshot_def parse_snapshot_def)
  then have r: "resource_of JSON_parse d (element st) pf = Some (fallback (read_variantId d pf))"
    by (simp add: resource_of_def complete_resource_def)
  from dispatchVariantUpdateEvent_dispatches [OF assms(1) r priceHTML_nonempty [OF assms(2)]]
  show ?thesis by (auto simp: variant_update_of_def fallback_def)
qed

theorem fallback_snapshot_still_dispatches_witness:
  "\<exists>st'. dispatchVariantUpdateEvent no_json (product_page 6 ''$10.00'') 7 (bound_state [] (Some 6) []) =
           Returned st' \<and>
         events st' =
           [VariantUpdate 2
              (JObj [(''id'', JStr ''42''), (''available'', JBool True),
                     (''inventory_management'', JBool False)])
              ''recharge-purchase-option''
              (htmlString ''$10.00'') ''77'']"
proof -
  let ?d = "product_page 6 ''$10.00''"
  let ?st = "bound_state [] (Some 6) []"
  have e: "element ?st = 1" "events ?st = []" by (simp_all add: bound_state_def)
  have h1: "querySelector ?d (element ?st) sel_product_form = Some 2"
    unfolding e by code_simp
  have h2: "extractPriceData ?d 6 =
    Inr \<lparr>price = Num 10, planType = ''one-time'', hasDiscount = False, priceElement = 7\<rparr>"
    by code_simp
  have "snapshot_text ?d (element ?st) = Some ''{id:''" unfolding e by code_simp
  then have h3: "snapshot_text ?d (element ?st) = None \<or>
         (\<exists>t. snapshot_text ?d (element ?st) = Some t \<and> no_json t = None)"
    by (simp add: no_json_def)
  have v: "read_variantId ?d 2 = Some ''42''" "read_productId ?d 2 = ''77''"
          "priceHTML_of ?d 7 = ''$10.00''"
    by code_simp+
  from fallback_snapshot_still_dispatches [OF h1 h2 h3] v e show ?thesis by simp
qed

theorem fallback_without_form_counterexample:
  "snapshot_text (page_without_form 6 ''$10.00'') 1 = None \<and>
   extractPriceData (page_without_form 6 ''$10.00'') 6 =
     Inr \<lparr>price = Num 10, planType = ''one-time'', hasDiscount = False, priceElement = 7\<rparr> \<and>
   dispatchVariantUpdateEvent no_json (page_without_form 6 ''$10.00'') 7
     (bound_state [] (Some 6) []) = Returned (bound_state [] (Some 6) [])"
  by code_simp

text \<open>
  Claim C2, amended. When the host contains a product form and the variant resource can
  be built, the handling of one mutation record, and the initial-selection check, return
  and dispatch nothing, one variant update, or one selection change immediately followed
  by exactly one variant update.
\<close>

theorem selection_change_then_variant_update:
  assumes "querySelector d (element st) sel_product_form = Some pf"
    and "snapshot_usable JSON_parse d (element st)"
  shows "(\<exists>st' new. handleSelectionMutation JSON_parse d m st = Returned st' \<and>
            events st' = events st @ new \<and> one_cycle new) \<and>
         (\<exists>st' new. checkForInitialSelection JSON_parse d st = Returned st' \<and>
            events st' = events st @ new \<and> one_cycle new)"
proof -
  from assms(2) obtain r where r: "resource_of JSON_parse d (element st) pf = Some r"
    using snapshot_usable_resource [of JSON_parse d "element st" pf] by auto
  from handleSelectionMutation_cycle [OF assms(1) r] checkForInitialSelection_cycle [OF assms(1) r]
  show ?thesis by blast
qed

theorem selection_change_then_variant_update_witness:
  "\<exists>st' new. handleSelectionMutation no_json (product_page 6 ''$10.00'') (Attributes 6 ''part'')
                (bound_state [] None []) = Returned st' \<and>
             events st' = new \<and> one_cycle new \<and> list_ex is_SelectionChange new"
proof -
  let ?d = "product_page 6 ''$10.00''"
  let ?st = "bound_state [] None []"
  have e: "element ?st = 1" "events ?st = []" by (simp_all add: bound_state_def)
  have h1: "querySelector ?d (element ?st) sel_product_form = Some 2"
    unfolding e by code_simp
  have h2: "snapshot_usable no_json ?d (element ?st)"
    unfolding e by code_simp
  have s: "list_ex is_SelectionChange
             (events (final (handleSelectionMutation no_json ?d (Attributes 6 ''part'') ?st)))"
    by code_simp
  from selection_change_then_variant_update [OF h1 h2, of "Attributes 6 ''part''"] s e
  show ?thesis by auto
qed

theorem selection_change_without_form_counterexample:
  "handleSelectionMutation no_json (page_without_form 6 ''$10.00'') (Attributes 6 ''part'')
     (bound_state [] None []) =
   Returned (bound_state
     [SelectionChange 1 6
        \<lparr>price = Num 10, planType = ''one-time'', hasDiscount = False, priceElement = 7\<rparr>
        ''selection'']
     (Some 6) [])"
  by code_simp

lemma check_nodes_eq:
  "check_nodes jp d ns st =
     (if list_ex (\<lambda>n. is_element_node d n \<and> price_bearing d n) ns
      then checkForPriceUpdate jp d st else Returned st)"
  by (induction ns) auto

lemma handleSelectionMutation_price_record:
  "\<not> is_attributes m \<Longrightarrow>
   handleSelectionMutation jp d m st =
     (if price_record d m then checkForPriceUpdate jp d st else Returned st)"
  by (cases m) (auto simp: check_nodes_eq split: option.splits)

text \<open>
  Claim C7, amended. A character-data or child-list record handled while the selected
  node is the one selected before dispatches no selection change. A record that the
  watcher does not take for a price change dispatches nothing. A record that it does take
  for one, when the price extracts, the host contains a product form and the variant
  resource can be built, dispatches exactly one variant update, whose markup is that of
  the price element as it now is.
\<close>

theorem price_only_mutation:
  assumes "\<not> is_attributes m"
    and "observeTarget d st = Some t"
    and "querySelector d t sel_selected = Some sel"
    and "currentSelectedElement st = Some sel"
  shows "(\<exists>new. events (final (handleSelectionMutation JSON_parse d m st)) = events st @ new \<and>
                \<not> list_ex is_SelectionChange new) \<and>
         (\<not> price_record d m \<longrightarrow> handleSelectionMutation JSON_parse d m st = Returned st) \<and>
         (\<forall>pd pf. price_record d m \<longrightarrow>
            extractPriceData d sel = Inr pd \<longrightarrow>
            querySelector d (element st) sel_product_form = Some pf \<longrightarrow>
            snapshot_usable JSON_parse d (element st) \<longrightarrow>
            (\<exists>st' r. handleSelectionMutation JSON_parse d m st = Returned st' \<and>
               resource_of JSON_parse d (element st) pf = Some r \<and>
               events st' = events st @
                 [VariantUpdate pf r ''recharge-purchase-option''
                    (htmlString (priceHTML_of d (priceElement pd))) (read_productId d pf)]))"
proof -
  note hm = handleSelectionMutation_price_record [OF assms(1), of JSON_parse d st]
  have h: "checkForPriceUpdate JSON_parse d st =
           (case extractPriceData d sel of
              Inl w \<Rightarrow> Returned (warn w st)
            | Inr pd \<Rightarrow> dispatchVariantUpdateEvent JSON_parse d (priceElement pd) st)"
    using assms(2-4) by (simp add: checkForPriceUpdate_def)
  have 0: "handleSelectionMutation JSON_parse d m st = Returned st" if "\<not> price_record d m"
    using hm that by simp
  have 1: "\<exists>new. events (final (handleSelectionMutation JSON_parse d m st)) =
                  events st @ new \<and> \<not> list_ex is_SelectionChange new"
  proof (cases "price_record d m")
    case False
    with 0 show ?thesis by simp
  next
    case True
    show ?thesis
    proof (cases "extractPriceData d sel")
      case (Inl w)
      with h hm True show ?thesis by (simp add: warn_def)
    next
      case (Inr pd)
      from dispatchVariantUpdateEvent_events [of JSON_parse d "priceElement pd" st]
      obtain new where
        "events (final (dispatchVariantUpdateEvent JSON_parse d (priceElement pd) st)) =
           events st @ new" "new = [] \<or> (\<exists>v. new = [v] \<and> is_VariantUpdate v)"
        by blast
      moreover from this(2) have "\<not> list_ex is_SelectionChange new"
        by (auto elim: is_VariantUpdate.elims)
      ultimately show ?thesis using h hm True Inr by auto
    qed
  qed
  have 2: "\<exists>st' r. handleSelectionMutation JSON_parse d m st = Returned st' \<and>
               resource_of JSON_parse d (element st) pf = Some r \<and>
               events st' = events st @
                 [VariantUpdate pf r ''recharge-purchase-option''
                    (htmlString (priceHTML_of d (priceElement pd))) (read_productId d pf)]"
    if pr: "price_record d m"
      and x: "extractPriceData d sel = Inr pd"
      and f: "querySelector d (element st) sel_product_form = Some pf"
      and u: "snapshot_usable JSON_parse d (element st)" for pd pf
  proof -
    from u obtain r where r: "resource_of JSON_parse d (element st) pf = Some r"
      using snapshot_usable_resource [of JSON_parse d "element st" pf] by auto
    from dispatchVariantUpdateEvent_dispatches [OF f r priceHTML_nonempty [OF x]] h hm pr x r
    show ?thesis by (auto simp: variant_update_of_def)
  qed
  from 0 1 2 show ?thesis by blast
qed

theorem price_only_mutation_witness:
  "price_record (product_page 6 ''$12.00'') (CharacterData 8) \<and>
   (\<exists>st'. handleSelectionMutation no_json (product_page 6 ''$12.00'') (CharacterData 8)
            (bound_state [] (Some 6) []) = Returned st' \<and>
         events st' =
           [VariantUpdate 2
              (JObj [(''id'', JStr ''42''), (''available'', JBool True),
                     (''inventory_management'', JBool False)])
              ''recharge-purchase-option'' (htmlString ''$12.00'') ''77''])"
proof -
  let ?d = "product_page 6 ''$12.00''"
  let ?st = "bound_state [] (Some 6) []"
  have e: "element ?st = 1" "events ?st = []" "currentSelectedElement ?st = Some 6"
    by (simp_all add: bound_state_def)
  have h0: "\<not> is_attributes (CharacterData 8)" by simp
  have h1: "price_record ?d (CharacterData 8)" by code_simp
  have h4: "observeTarget ?d ?st = Some 5" by code_simp
  have h5: "querySelector ?d 5 sel_selected = Some 6" by code_simp
  have x: "extractPriceData ?d 6 =
    Inr \<lparr>price = Num 12, planType = ''one-time'', hasDiscount = False, priceElement = 7\<rparr>"
    by code_simp
  have f: "querySelector ?d (element ?st) sel_product_form = Some 2" unfolding e by code_simp
  have u: "snapshot_usable no_json ?d (element ?st)" unfolding e by code_simp
  have v: "resource_of no_json ?d (element ?st) 2 =
             Some (JObj [(''id'', JStr ''42''), (''available'', JBool True),
                         (''inventory_management'', JBool False)])"
          "read_productId ?d 2 = ''77''" "priceHTML_of ?d 7 = ''$12.00''"
    unfolding e by code_simp+
  from price_only_mutation [OF h0 h4 h5 e(3), of no_json] h1 x f u v e
  show ?thesis by auto
qed

theorem price_only_mutation_without_form_counterexample:
  "filter is_VariantUpdate
     (events (final (handleSelectionMutation no_json (page_without_form 6 ''$12.00'')
                       (CharacterData 8)
                       (bound_state
                          [SelectionChange 1 6
                             \<lparr>price = Num 10, planType = ''one-time'', hasDiscount = False,
                                priceElement = 7\<rparr>
                             ''selection'']
                          (Some 6) [])))) = []"
  by code_simp

lemma first_selection:
  "handleSelectionMutations no_json (product_page 6 ''$10.00'') [Attributes 6 ''part'']
     (bound_state [] None []) =
   Returned (bound_state
     [SelectionChange 1 6
        \<lparr>price = Num 10, planType = ''one-time'', hasDiscount = False, priceElement = 7\<rparr>
        ''selection'',
      VariantUpdate 2
        (JObj [(''id'', JStr ''42''), (''available'', JBool True),
               (''inventory_management'', JBool False)])
        ''recharge-purchase-option'' (htmlString ''$10.00'') ''77'']
     (Some 6) [warn_variant_json])"
  by code_simp

lemma second_selection:
  "filter is_SelectionChange
     (events (final (handleSelectionMutations no_json (product_page 6 ''$10.00'')
        [Attributes 6 ''part'']
        (bound_state
           [SelectionChange 1 6
              \<lparr>price = Num 10, planType = ''one-time'', hasDiscount = False, priceElement = 7\<rparr>
              ''selection'',
            VariantUpdate 2
              (JObj [(''id'', JStr ''42''), (''available'', JBool True),
                     (''inventory_management'', JBool False)])
              ''recharge-purchase-option'' (htmlString ''$10.00'') ''77'']
           (Some 6) [warn_variant_json])))) =
     [SelectionChange 1 6
        \<lparr>price = Num 10, planType = ''one-time'', hasDiscount = False, priceElement = 7\<rparr>
        ''selection'',
      SelectionChange 1 6
        \<lparr>price = Num 10, planType = ''one-time'', hasDiscount = False, priceElement = 7\<rparr>
        ''selection'']"
  by code_simp

text \<open>
  Claim C1, evaluated where the code departs from it. The widget is bound and nothing is
  selected. A record for the part attribute of node 6, which now carries the selected
  marker, dispatches one selection change and one variant update and makes node 6 the
  current selection. The same record again, on the same document, dispatches a second
  selection change for node 6.
\<close>

theorem reselection_redispatches:
  "currentSelectedElement
     (final (handleSelectionMutations no_json (product_page 6 ''$10.00'')
               [Attributes 6 ''part''] (bound_state [] None []))) = Some 6 \<and>
   filter is_SelectionChange
     (events (final (handleSelectionMutations no_json (product_page 6 ''$10.00'')
        [Attributes 6 ''part'']
        (final (handleSelectionMutations no_json (product_page 6 ''$10.00'')
                  [Attributes 6 ''part''] (bound_state [] None [])))))) =
     [SelectionChange 1 6
        \<lparr>price = Num 10, planType = ''one-time'', hasDiscount = False, priceElement = 7\<rparr>
        ''selection'',
      SelectionChange 1 6
        \<lparr>price = Num 10, planType = ''one-time'', hasDiscount = False, priceElement = 7\<rparr>
        ''selection'']"
  unfolding first_selection final.simps second_selection
  by (simp add: bound_state_def)

subsection \<open>Every dispatched selection change has a known plan\<close>

lemma events_frame [simp]:
  "events (warn w st) = events st"
  "events (disconnect h st) = events st"
  "events (snd (observe cb t st)) = events st"
  "events (stopWidgetObserver st) = events st"
  by (simp_all add: warn_def disconnect_def observe_def stopWidgetObserver_def split: option.splits)

lemma extract_plan_known:
  "extractPriceData d sel = Inr pd \<Longrightarrow> planType pd = ''one-time'' \<or> planType pd = ''subscription''"
  using extractPriceData_Inr(1) [of d sel pd]
  by (auto simp: price_lookup_def Let_def split: if_splits option.splits)

lemma and_then_final:
  assumes "P (final out)" and "\<And>s. P s \<Longrightarrow> P (final (f s))"
  shows "P (final (and_then out f))"
  using assms by (cases out) auto

lemma known_dispatchVariantUpdateEvent:
  "known st \<Longrightarrow> known (final (dispatchVariantUpdateEvent jp d pe st))"
  using dispatchVariantUpdateEvent_events [of jp d pe st]
  by (auto elim: is_VariantUpdate.elims)

lemma known_dispatchPurchaseOptionChangeEvent:
  "known st \<Longrightarrow> planType pd = ''one-time'' \<or> planType pd = ''subscription'' \<Longrightarrow>
   known (final (dispatchPurchaseOptionChangeEvent jp d sel pd ct st))"
  unfolding dispatchPurchaseOptionChangeEvent_def
  by (rule known_dispatchVariantUpdateEvent) (simp add: dispatchEvent_def)

lemma known_handlePurchaseOptionSelected:
  "known st \<Longrightarrow> known (final (handlePurchaseOptionSelected jp d sel st))"
  by (cases "extractPriceData d sel")
     (auto simp: handlePurchaseOptionSelected_def
           intro!: known_dispatchPurchaseOptionChangeEvent dest: extract_plan_known)

lemma known_checkForPriceUpdate:
  "known st \<Longrightarrow> known (final (checkForPriceUpdate jp d st))"
  by (auto simp: checkForPriceUpdate_def
           intro!: known_handlePurchaseOptionSelected known_dispatchVariantUpdateEvent
           split: option.splits sum.splits)

lemma known_check_nodes:
  "known st \<Longrightarrow> known (final (check_nodes jp d ns st))"
  by (induction ns) (auto intro: known_checkForPriceUpdate)

lemma known_handleSelectionMutation:
  "known st \<Longrightarrow> known (final (handleSelectionMutation jp d m st))"
  by (cases m)
     (auto intro: known_checkForPriceUpdate known_handlePurchaseOptionSelected known_check_nodes
           split: option.splits)

lemma known_handleSelectionMutations:
  "known st \<Longrightarrow> known (final (handleSelectionMutations jp d ms st))"
proof (induction ms arbitrary: st)
  case Nil
  then show ?case by simp
next
  case (Cons m ms)
  show ?case
    unfolding handleSelectionMutations.simps
    by (rule and_then_final [where P = known])
       (use Cons known_handleSelectionMutation in auto)
qed

lemma known_checkForInitialSelection:
  "known st \<Longrightarrow> known (final (checkForInitialSelection jp d st))"
  by (auto simp: checkForInitialSelection_def Let_def
           intro!: known_dispatchPurchaseOptionChangeEvent dest: extract_plan_known
           split: option.splits sum.splits)

lemma known_setupWidgetContentObserver:
  "known st \<Longrightarrow> known (final (setupWidgetContentObserver jp d t st))"
  by (auto simp: setupWidgetContentObserver_def observe_def
           intro: known_checkForInitialSelection split: prod.splits)


lemma known_widgetContentLoaded:
  "known st \<Longrightarrow> known (final (widgetContentLoaded jp d t ms st))"
proof (induction ms)
  case Nil
  then show ?case by simp
next
  case (Cons m ms)
  then show ?case
    by (cases m) (auto intro!: known_checkForInitialSelection split: option.splits)
qed

lemma known_setupSelectionObserver:
  "known st \<Longrightarrow> known (final (setupSelectionObserver jp d st))"
  by (auto simp: setupSelectionObserver_def observe_def
           intro!: known_setupWidgetContentObserver split: option.splits prod.splits)

lemma known_retryFindShadowRoot:
  "known st \<Longrightarrow> known (final (retryFindShadowRoot jp d w a m st))"
  by (auto simp: retryFindShadowRoot_def Let_def
           intro!: known_setupSelectionObserver split: option.splits)

lemma known_findRechargeContainer:
  "known st \<Longrightarrow> known (final (findRechargeContainer jp d st))"
  by (auto simp: findRechargeContainer_def
           intro!: known_retryFindShadowRoot split: option.splits sum.splits)

lemma known_checkForExistingWidget:
  "known st \<Longrightarrow> known (final (checkForExistingWidget jp d st))"
  unfolding checkForExistingWidget_def
  by (rule and_then_final [where P = known])
     (auto intro!: known_findRechargeContainer known_setupSelectionObserver)

lemma known_handleWidgetMutations:
  "known st \<Longrightarrow> known (final (handleWidgetMutations jp d ms st))"
proof (cases "foundWidget d ms \<and> querySelector d (element st) sel_widget \<noteq> None")
  case False
  then show "known st \<Longrightarrow> ?thesis"
    by (auto simp: handleWidgetMutations_def split: option.splits)
next
  case True
  assume k: "known st"
  have "known (final (and_then (findRechargeContainer jp d st)
                  (\<lambda>st1. if rechargeContainer st1 \<noteq> None
                         then setupSelectionObserver jp d (stopWidgetObserver st1)
                         else Returned st1)))"
    by (rule and_then_final [where P = known])
       (auto intro!: known_findRechargeContainer known_setupSelectionObserver k)
  with True show ?thesis by (auto simp: handleWidgetMutations_def)
qed

lemma known_observeForRechargeWidget:
  "known st \<Longrightarrow> known (final (observeForRechargeWidget jp d st))"
  by (auto simp: observeForRechargeWidget_def observe_def
           intro!: known_checkForExistingWidget split: option.splits prod.splits)

lemma known_setup_observer:
  "known st \<Longrightarrow> known (final (setup_observer jp d st))"
  unfolding setup_observer_def startObserving_def
  by (rule and_then_final [where P = known], erule known_findRechargeContainer,
      rule and_then_final [where P = known], erule known_observeForRechargeWidget) simp

lemma known_constructor: "known (final (constructor loading jp d host))"
  by (auto simp: constructor_def init_def new_observer_def intro!: known_setup_observer)

lemma known_destroy: "known st \<Longrightarrow> known (destroy st)"
  by (simp add: destroy_def Let_def disconnect_def stopWidgetObserver_def split: option.splits)

lemma known_step: "step jp st st' \<Longrightarrow> known st \<Longrightarrow> known st'"
proof (induction rule: step.induct)
  case (timer_fires t st d)
  obtain w a m dl where t: "t = RetryTimer w a m dl" by (cases t)
  have "known (st\<lparr>timers := remove1 t (timers st)\<rparr>)" using timer_fires(2) by simp
  then have "known (final (retryFindShadowRoot jp d w a m (st\<lparr>timers := remove1 t (timers st)\<rparr>)))"
    by (rule known_retryFindShadowRoot)
  then show ?case unfolding fire_def t by simp
next
  case (dom_ready st d)
  then show ?case by (auto intro!: known_setup_observer)
next
  case (records h cb target st d mutations)
  then show ?case
    by (cases cb)
       (auto simp: deliver_def
             intro!: known_handleWidgetMutations known_handleSelectionMutations
                     known_widgetContentLoaded)
next
  case (teardown st)
  then show ?case by (rule known_destroy)
qed

lemma known_reachable: "(step jp)\<^sup>*\<^sup>* st st' \<Longrightarrow> known st \<Longrightarrow> known st'"
  by (induction rule: rtranclp_induct) (auto intro: known_step)

lemma unknown_plan_fails:
  assumes "plan_of d (container_of d sel) = ''unknown''"
  shows "price_lookup d (container_of d sel) = (None, ''unknown'', False)"
    and "extractPriceData d sel = Inl warn_no_price_element"
proof -
  from assms show 1: "price_lookup d (container_of d sel) = (None, ''unknown'', False)"
    by (auto simp: plan_of_def price_lookup_def Let_def split: if_splits option.splits)
  then show "extractPriceData d sel = Inl warn_no_price_element"
    by (simp add: extractPriceData_def)
qed

text \<open>
  Claim C10. In every state an instance can reach from its construction, every selection
  change it has dispatched carries the plan type one-time or subscription. When the walks
  find neither token, no price element is looked up, extraction fails with the warning
  about a missing price element, and the selection handler, the price check and the
  initial-selection check dispatch nothing.
\<close>

theorem selection_change_plan_known:
  "((step JSON_parse)\<^sup>*\<^sup>* (final (constructor loading JSON_parse d host)) st \<longrightarrow>
      list_all plan_known (events st)) \<and>
   (plan_of d' (container_of d' sel) = ''unknown'' \<longrightarrow>
      price_lookup d' (container_of d' sel) = (None, ''unknown'', False) \<and>
      extractPriceData d' sel = Inl warn_no_price_element \<and>
      events (final (handlePurchaseOptionSelected JSON_parse d' sel st')) = events st' \<and>
      (observeTarget d' st' = Some t \<and> querySelector d' t sel_selected = Some sel \<longrightarrow>
         events (final (checkForPriceUpdate JSON_parse d' st')) = events st' \<and>
         events (final (checkForInitialSelection JSON_parse d' st')) = events st'))"
proof -
  have 1: "(step JSON_parse)\<^sup>*\<^sup>* (final (constructor loading JSON_parse d host)) st \<Longrightarrow>
           list_all plan_known (events st)"
    by (erule known_reachable) (rule known_constructor)
  have 2: "price_lookup d' (container_of d' sel) = (None, ''unknown'', False) \<and>
      extractPriceData d' sel = Inl warn_no_price_element \<and>
      events (final (handlePurchaseOptionSelected JSON_parse d' sel st')) = events st' \<and>
      (observeTarget d' st' = Some t \<and> querySelector d' t sel_selected = Some sel \<longrightarrow>
         events (final (checkForPriceUpdate JSON_parse d' st')) = events st' \<and>
         events (final (checkForInitialSelection JSON_parse d' st')) = events st')"
    if u: "plan_of d' (container_of d' sel) = ''unknown''"
  proof -
    note f = unknown_plan_fails [OF u]
    have h: "\<And>s. events (final (handlePurchaseOptionSelected JSON_parse d' sel s)) = events s"
      using f(2) by (simp add: handlePurchaseOptionSelected_def)
    show ?thesis
      using f h [of st']
      by (auto simp: checkForPriceUpdate_def checkForInitialSelection_def
                     handlePurchaseOptionSelected_def)
  qed
  from 1 2 show ?thesis by blast
qed

lemma first_selection_reachable:
  "(step no_json)\<^sup>*\<^sup>*
     (final (constructor False no_json (product_page 0 ''$10.00'') 1))
     (bound_state
        [SelectionChange 1 6
           \<lparr>price = Num 10, planType = ''one-time'', hasDiscount = False, priceElement = 7\<rparr>
           ''selection'',
         VariantUpdate 2
           (JObj [(''id'', JStr ''42''), (''available'', JBool True),
                  (''inventory_management'', JBool False)])
           ''recharge-purchase-option'' (htmlString ''$10.00'') ''77'']
        (Some 6) [warn_variant_json])"
proof -
  have o: "(0, SelectionMutated, 5) \<in> set (observers (bound_state [] None []))"
    by (simp add: bound_state_def)
  have d: "deliver no_json (product_page 6 ''$10.00'') SelectionMutated 5 [Attributes 6 ''part'']
             (bound_state [] None []) =
           final (handleSelectionMutations no_json (product_page 6 ''$10.00'')
                    [Attributes 6 ''part''] (bound_state [] None []))"
    by (simp only: deliver_def callback.case)
  from step.records [OF o, of no_json "product_page 6 ''$10.00''" "[Attributes 6 ''part'']"]
  show ?thesis
    unfolding d first_selection constructor_product_page final.simps
    by (rule r_into_rtranclp)
qed

theorem selection_change_plan_known_witness:
  "list_all plan_known
     [SelectionChange 1 6
        \<lparr>price = Num 10, planType = ''one-time'', hasDiscount = False, priceElement = 7\<rparr>
        ''selection'',
      VariantUpdate 2
        (JObj [(''id'', JStr ''42''), (''available'', JBool True),
               (''inventory_management'', JBool False)])
        ''recharge-purchase-option'' (htmlString ''$10.00'') ''77''] \<and>
   plan_of plain_option (container_of plain_option 2) = ''unknown'' \<and>
   extractPriceData plain_option 2 = Inl warn_no_price_element \<and>
   events (final (handlePurchaseOptionSelected no_json plain_option 2 (new_observer 0))) = []"
proof -
  have u: "plan_of plain_option (container_of plain_option 2) = ''unknown''" by code_simp
  have e: "events (new_observer 0) = []" by (simp add: new_observer_def)
  from selection_change_plan_known
         [of no_json False "product_page 0 ''$10.00''" 1
             "bound_state
                [SelectionChange 1 6
                   \<lparr>price = Num 10, planType = ''one-time'', hasDiscount = False,
                      priceElement = 7\<rparr>
                   ''selection'',
                 VariantUpdate 2
                   (JObj [(''id'', JStr ''42''), (''available'', JBool True),
                          (''inventory_management'', JBool False)])
                   ''recharge-purchase-option'' (htmlString ''$10.00'') ''77'']
                (Some 6) [warn_variant_json]"
             plain_option 2 "new_observer 0"]
       u e first_selection_reachable
  show ?thesis by (simp add: bound_state_def)
qed

subsection \<open>Discovery and teardown\<close>

lemma retry_not_found:
  "findShadowRoot_of d w = None \<Longrightarrow>
   retryFindShadowRoot jp d w a m st =
     Returned (if a < m then st\<lparr>timers := timers st @ [RetryTimer w (a + 1) m 300]\<rparr> else st)"
  by (simp add: retryFindShadowRoot_def)

lemma fire_not_found:
  "findShadowRoot_of d w = None \<Longrightarrow>
   fire jp d (RetryTimer w a m dl) st =
     st\<lparr>timers := remove1 (RetryTimer w a m dl) (timers st) @
                    (if a < m then [RetryTimer w (a + 1) m 300] else [])\<rparr>"
  by (simp add: fire_def retry_not_found)

lemma remaining_zero: "sum_list (map remaining ts) = 0 \<Longrightarrow> ts = []"
  by (cases ts) (auto elim: remaining.elims)

lemma fire_all_failing:
  assumes "\<forall>d \<in> set ds. findShadowRoot_of d w = None"
    and "\<forall>t \<in> set (timers st). timer_widget t = w"
  shows "\<exists>ts. fire_all jp ds st = st\<lparr>timers := ts\<rparr> \<and>
              (\<forall>t \<in> set ts. timer_widget t = w) \<and>
              sum_list (map remaining ts) = sum_list (map remaining (timers st)) - length ds"
  using assms
proof (induction ds arbitrary: st)
  case Nil
  then show ?case by (intro exI [of _ "timers st"]) simp
next
  case (Cons d ds)
  show ?case
  proof (cases "timers st")
    case Nil
    then show ?thesis by (intro exI [of _ "[]"]) simp
  next
    case (Cons t ts0)
    with Cons.prems(2) obtain a m dl where t: "t = RetryTimer w a m dl"
      by (cases t) auto
    let ?new = "if a < m then [RetryTimer w (a + 1) m 300] else []"
    let ?st1 = "st\<lparr>timers := ts0 @ ?new\<rparr>"
    from Cons.prems(1) have nf: "findShadowRoot_of d w = None" by simp
    have f: "fire jp d t st = ?st1"
      unfolding t using fire_not_found [OF nf, of jp a m dl st] Cons t by simp
    have w1: "\<forall>t \<in> set (timers ?st1). timer_widget t = w"
      using Cons.prems(2) Cons by auto
    from Cons.IH [of ?st1] Cons.prems(1) w1
    obtain ts where ts: "fire_all jp ds ?st1 = ?st1\<lparr>timers := ts\<rparr>"
      "\<forall>t \<in> set ts. timer_widget t = w"
      "sum_list (map remaining ts) = sum_list (map remaining (timers ?st1)) - length ds"
      by auto
    have "sum_list (map remaining (timers ?st1)) = sum_list (map remaining (timers st)) - 1"
      using Cons t by auto
    with ts f Cons show ?thesis
      by (intro exI [of _ ts]) simp
  qed
qed

lemma destroy_fields:
  "selectionObserver (destroy st) = None \<and> widgetContentObserver (destroy st) = None \<and>
   widgetObserver (destroy st) = None \<and> currentSelectedElement (destroy st) = None \<and>
   timers (destroy st) = timers st \<and> events (destroy st) = events st \<and>
   domContentLoaded (destroy st) = domContentLoaded st"
  by (simp add: destroy_def Let_def disconnect_def stopWidgetObserver_def split: option.splits)

lemma destroy_observers:
  "observers (destroy st) =
     filter (\<lambda>(h, cb, t). Some h \<noteq> selectionObserver st \<and> Some h \<noteq> widgetContentObserver st \<and>
                          Some h \<noteq> widgetObserver st) (observers st)"
  by (auto simp: destroy_def Let_def disconnect_def stopWidgetObserver_def
           split: option.splits intro!: filter_cong)

lemma quiescent_step:
  assumes "step jp st st'" and "observers st = []" and "timers st = []"
    and "\<not> domContentLoaded st"
  shows "events st' = events st \<and> observers st' = [] \<and> timers st' = [] \<and>
         \<not> domContentLoaded st'"
  using assms
proof (cases rule: step.cases)
  case (teardown)
  with assms destroy_fields [of st] destroy_observers [of st] show ?thesis by simp
qed auto

lemma quiescent_forever:
  assumes "(step jp)\<^sup>*\<^sup>* st st'" and "observers st = []" and "timers st = []"
    and "\<not> domContentLoaded st"
  shows "events st' = events st \<and> observers st' = [] \<and> timers st' = [] \<and>
         \<not> domContentLoaded st'"
  using assms
proof (induction rule: rtranclp_induct)
  case base
  then show ?case by simp
next
  case (step y z)
  with quiescent_step [of jp y z] show ?case by simp
qed

lemma setup_widget_without_root:
  assumes "scan_candidates (candidates d host) None = Inr (Some w)"
    and "findShadowRoot_of d w = None"
    and "querySelector d host sel_widget \<noteq> None"
  shows "constructor False jp d host =
           Returned ((new_observer host)
             \<lparr>initialized := True,
              timers := [RetryTimer w 1 10 300, RetryTimer w 1 10 300]\<rparr>)"
proof -
  have e: "element (new_observer host) = host" "rechargeContainer (new_observer host) = None"
    "timers (new_observer host) = []"
    by (simp_all add: new_observer_def)
  let ?s1 = "(new_observer host)\<lparr>timers := [RetryTimer w 1 10 300]\<rparr>"
  have 1: "findRechargeContainer jp d (new_observer host) = Returned ?s1"
    using assms(1,2) e by (simp add: findRechargeContainer_def retry_not_found)
  have 2: "findRechargeContainer jp d ?s1 =
           Returned (?s1\<lparr>timers := [RetryTimer w 1 10 300, RetryTimer w 1 10 300]\<rparr>)"
    using assms(1,2) e by (simp add: findRechargeContainer_def retry_not_found)
  have 3: "observeForRechargeWidget jp d ?s1 =
           Returned (?s1\<lparr>timers := [RetryTimer w 1 10 300, RetryTimer w 1 10 300]\<rparr>)"
    using assms(3) e 2
    by (auto simp: observeForRechargeWidget_def checkForExistingWidget_def)
  show ?thesis
    by (simp only: constructor_def init_def setup_observer_def startObserving_def if_False
          1 3 and_then.simps) simp
qed

text \<open>
  Claim C9, amended. A retry that finds no shadow root returns without an exception, and
  sets one timer of 300 ms for the attempt after it exactly when the attempt is below the
  maximum; nothing else changes. When the widget element is present at construction and
  no shadow root is found, construction connects no watcher, dispatches nothing and sets
  timers with a budget of twenty retries; every firing that finds no shadow root lowers
  the budget by one, and once twenty have fired no timer is left, and from then on no
  step of the instance dispatches an event, connects a watcher or sets a timer.
\<close>

theorem bounded_discovery_retry:
  assumes "findShadowRoot_of d w = None"
  shows "retryFindShadowRoot JSON_parse d w a m st =
           Returned (if a < m
                     then st\<lparr>timers := timers st @ [RetryTimer w (a + 1) m 300]\<rparr>
                     else st) \<and>
         (scan_candidates (candidates d host) None = Inr (Some w) \<and>
          querySelector d host sel_widget \<noteq> None \<and>
          (\<forall>d' \<in> set ds. findShadowRoot_of d' w = None) \<longrightarrow>
            (\<exists>ts. fire_all JSON_parse ds (final (constructor False JSON_parse d host)) =
                    (new_observer host)\<lparr>initialized := True, timers := ts\<rparr> \<and>
                  sum_list (map remaining ts) = 20 - length ds \<and>
                  (20 \<le> length ds \<longrightarrow> ts = [])) \<and>
            (20 \<le> length ds \<longrightarrow>
               (\<forall>s'. (step JSON_parse)\<^sup>*\<^sup>*
                        (fire_all JSON_parse ds (final (constructor False JSON_parse d host))) s' \<longrightarrow>
                      events s' = [] \<and> observers s' = [] \<and> timers s' = [])))"
proof -
  have A: "retryFindShadowRoot JSON_parse d w a m st =
           Returned (if a < m
                     then st\<lparr>timers := timers st @ [RetryTimer w (a + 1) m 300]\<rparr>
                     else st)"
    using assms by (rule retry_not_found)
  have B: "(\<exists>ts. fire_all JSON_parse ds (final (constructor False JSON_parse d host)) =
                    (new_observer host)\<lparr>initialized := True, timers := ts\<rparr> \<and>
                  sum_list (map remaining ts) = 20 - length ds \<and>
                  (20 \<le> length ds \<longrightarrow> ts = [])) \<and>
            (20 \<le> length ds \<longrightarrow>
               (\<forall>s'. (step JSON_parse)\<^sup>*\<^sup>*
                        (fire_all JSON_parse ds (final (constructor False JSON_parse d host))) s' \<longrightarrow>
                      events s' = [] \<and> observers s' = [] \<and> timers s' = []))"
    if sc: "scan_candidates (candidates d host) None = Inr (Some w)"
      and wd: "querySelector d host sel_widget \<noteq> None"
      and nf: "\<forall>d' \<in> set ds. findShadowRoot_of d' w = None"
  proof -
    let ?s0 = "(new_observer host)
                 \<lparr>initialized := True,
                  timers := [RetryTimer w 1 10 300, RetryTimer w 1 10 300]\<rparr>"
    have c: "final (constructor False JSON_parse d host) = ?s0"
      using setup_widget_without_root [OF sc assms wd] by simp
    have "\<forall>t \<in> set (timers ?s0). timer_widget t = w" by simp
    from fire_all_failing [OF nf this, of JSON_parse]
    obtain ts where ts: "fire_all JSON_parse ds ?s0 = ?s0\<lparr>timers := ts\<rparr>"
      "sum_list (map remaining ts) = sum_list (map remaining (timers ?s0)) - length ds"
      by blast
    have b: "sum_list (map remaining ts) = 20 - length ds" using ts(2) by simp
    have z: "ts = []" if "20 \<le> length ds" using that b remaining_zero by simp
    have f: "fire_all JSON_parse ds (final (constructor False JSON_parse d host)) =
             (new_observer host)\<lparr>initialized := True, timers := ts\<rparr>"
      unfolding c ts(1) by simp
    have q: "events s' = [] \<and> observers s' = [] \<and> timers s' = []"
      if l: "20 \<le> length ds"
        and r: "(step JSON_parse)\<^sup>*\<^sup>*
                  (fire_all JSON_parse ds (final (constructor False JSON_parse d host))) s'" for s'
      using quiescent_forever [OF r] f z [OF l] by (simp add: new_observer_def)
    from f b z q show ?thesis by blast
  qed
  from A B show ?thesis by blast
qed


lemma page_no_shadow_facts:
  "findShadowRoot_of page_no_shadow 4 = None"
  "scan_candidates (candidates page_no_shadow 1) None = Inr (Some 4)"
  "querySelector page_no_shadow 1 sel_widget = Some 4"
  by code_simp+

theorem bounded_discovery_retry_witness:
  "findShadowRoot_of page_no_shadow 4 = None \<and>
   retryFindShadowRoot no_json page_no_shadow 4 0 10 (new_observer 1) =
     Returned ((new_observer 1)\<lparr>timers := [RetryTimer 4 1 10 300]\<rparr>) \<and>
   fire_all no_json (replicate 20 page_no_shadow)
     (final (constructor False no_json page_no_shadow 1)) = idle_state [] \<and>
   events (idle_state []) = [] \<and> observers (idle_state []) = [] \<and>
   timers (idle_state []) = []"
proof -
  have h: "\<forall>d' \<in> set (replicate 20 page_no_shadow). findShadowRoot_of d' 4 = None"
    using page_no_shadow_facts(1) by simp
  from bounded_discovery_retry [OF page_no_shadow_facts(1), of no_json 0 10 "new_observer 1" 1
         "replicate 20 page_no_shadow"]
       page_no_shadow_facts h
  show ?thesis by (auto simp: idle_state_def new_observer_def)
qed

lemma waiting_for_widget:
  "constructor False no_json page_no_widget 1 = Returned (waiting_state [])"
  by code_simp

lemma widget_appears_without_root:
  "deliver no_json page_no_shadow WidgetAppeared 1 [ChildList 1 [4] []] (waiting_state []) =
     waiting_state [RetryTimer 4 1 10 300]"
  by code_simp

lemma retries_exhausted:
  "fire_all no_json (replicate 10 page_no_shadow) (waiting_state [RetryTimer 4 1 10 300]) =
     waiting_state []"
  by code_simp

lemma widget_reinserted:
  "events (deliver no_json (page_without_form 6 ''$10.00'') WidgetAppeared 1 [ChildList 1 [4] []]
             (waiting_state [])) =
     [SelectionChange 1 6
        \<lparr>price = Num 10, planType = ''one-time'', hasDiscount = False, priceElement = 7\<rparr>
        ''initial-load'']"
  by code_simp

theorem exhausted_budget_not_permanent_counterexample:
  "fire_all no_json (replicate 10 page_no_shadow)
     (deliver no_json page_no_shadow WidgetAppeared 1 [ChildList 1 [4] []]
        (final (constructor False no_json page_no_widget 1))) = waiting_state [] \<and>
   timers (waiting_state []) = [] \<and>
   events (waiting_state []) = [] \<and>
   observers (waiting_state []) = [(0, WidgetAppeared, 1)] \<and>
   events (deliver no_json (page_without_form 6 ''$10.00'') WidgetAppeared 1 [ChildList 1 [4] []]
             (waiting_state [])) =
     [SelectionChange 1 6
        \<lparr>price = Num 10, planType = ''one-time'', hasDiscount = False, priceElement = 7\<rparr>
        ''initial-load'']"
  unfolding waiting_for_widget final.simps widget_appears_without_root retries_exhausted
    widget_reinserted
  by (simp add: waiting_state_def new_observer_def)

lemma connected_mid_discovery:
  "connectedCallback False no_json page_no_shadow 1 =
     \<lparr>observer = True, inst = idle_state [RetryTimer 4 1 10 300, RetryTimer 4 1 10 300]\<rparr>"
  by code_simp

lemma disconnected_mid_discovery:
  "disconnectedCallback
     \<lparr>observer = True, inst = idle_state [RetryTimer 4 1 10 300, RetryTimer 4 1 10 300]\<rparr> =
     \<lparr>observer = False, inst = idle_state [RetryTimer 4 1 10 300, RetryTimer 4 1 10 300]\<rparr>"
  by code_simp

lemma timer_after_teardown:
  "observers (fire no_json (page_without_form 6 ''$10.00'') (RetryTimer 4 1 10 300)
                (idle_state [RetryTimer 4 1 10 300, RetryTimer 4 1 10 300])) =
     [(0, SelectionMutated, 5)]"
  by code_simp

text \<open>
  Claim C3, evaluated where the code departs from it. The host is connected while the
  widget element has no shadow root, and disconnected before one is found. The two retry
  timers set during discovery are still pending after the teardown; when one fires on a
  document in which the shadow root has appeared, a selection watcher is connected.
\<close>

theorem teardown_keeps_retry_timers:
  "timers (inst (disconnectedCallback (connectedCallback False no_json page_no_shadow 1))) =
     [RetryTimer 4 1 10 300, RetryTimer 4 1 10 300] \<and>
   observers (inst (disconnectedCallback (connectedCallback False no_json page_no_shadow 1))) = [] \<and>
   observers
     (fire no_json (page_without_form 6 ''$10.00'') (RetryTimer 4 1 10 300)
        (inst (disconnectedCallback (connectedCallback False no_json page_no_shadow 1)))) =
     [(0, SelectionMutated, 5)]"
  unfolding connected_mid_discovery disconnected_mid_discovery
  by (simp only: recharge_product.select_convs timer_after_teardown)
     (simp add: idle_state_def new_observer_def)

end
